theory Spec2Isabelle
  imports Complex_Main "HOL-Library.AList"
begin

section \<open>Python values\<close>

text \<open>
  The fields of \<^verbatim>\<open>zope/schema/_field.py\<close> validate arbitrary Python values. The model
  fixes a universe of values that is large enough for every branch of the module: the
  scalars the leaf fields accept, the containers the collection fields accept, and
  objects, which are known by their identity only (their attributes live in a separate
  attribute table, so that object graphs may be cyclic).

  The module is read as it runs on Python 3 (\<^verbatim>\<open>PY3\<close> true): \<^verbatim>\<open>NativeString\<close> is
  \<^verbatim>\<open>Text\<close>, \<^verbatim>\<open>NativeStringLine\<close> is \<^verbatim>\<open>TextLine\<close>, and a string is a
  sequence of code points.
\<close>

type_synonym unicode = "nat list"

definition u :: "string \<Rightarrow> unicode" where
  "u s = map of_char s"

datatype pynum = Finite rat | PosInf | NegInf | NaN

datatype pyval =
    PNone
  | PBool bool
  | PInt int
  | PFloat pynum
  | PDecimal pynum
  | PText unicode
  | PBytes "nat list"
  | PDate int
  | PDatetime int int
  | PTuple "pyval list"
  | PList "pyval list"
  | PSet "pyval list"
  | PFrozenSet "pyval list"
  | PObj nat

datatype pytype =
    T_text | T_bytes | T_bool | T_int | T_float | T_Decimal | T_date | T_datetime
  | T_tuple | T_list | T_set | T_frozenset | T_Sequence | T_MutableSequence

text \<open>
  \<^verbatim>\<open>isinstance(value, t)\<close>: \<^verbatim>\<open>bool\<close> is a subclass of \<^verbatim>\<open>int\<close>,
  \<^verbatim>\<open>datetime\<close> a subclass of \<^verbatim>\<open>date\<close>; strings, byte strings, tuples and lists
  are registered as \<^verbatim>\<open>abc.Sequence\<close>, lists as \<^verbatim>\<open>abc.MutableSequence\<close>.
\<close>

fun isinstance :: "pyval \<Rightarrow> pytype \<Rightarrow> bool" where
  "isinstance PNone t = False"
| "isinstance (PBool _) t = (t = T_bool \<or> t = T_int)"
| "isinstance (PInt _) t = (t = T_int)"
| "isinstance (PFloat _) t = (t = T_float)"
| "isinstance (PDecimal _) t = (t = T_Decimal)"
| "isinstance (PText _) t = (t = T_text \<or> t = T_Sequence)"
| "isinstance (PBytes _) t = (t = T_bytes \<or> t = T_Sequence)"
| "isinstance (PDate _) t = (t = T_date)"
| "isinstance (PDatetime _ _) t = (t = T_datetime \<or> t = T_date)"
| "isinstance (PTuple _) t = (t = T_tuple \<or> t = T_Sequence)"
| "isinstance (PList _) t = (t = T_list \<or> t = T_Sequence \<or> t = T_MutableSequence)"
| "isinstance (PSet _) t = (t = T_set)"
| "isinstance (PFrozenSet _) t = (t = T_frozenset)"
| "isinstance (PObj _) t = False"

text \<open>Truth value of a Python value, as \<^verbatim>\<open>not value\<close> tests it.\<close>

fun truthy :: "pyval \<Rightarrow> bool" where
  "truthy PNone = False"
| "truthy (PBool b) = b"
| "truthy (PInt i) = (i \<noteq> 0)"
| "truthy (PFloat x) = (x \<noteq> Finite 0)"
| "truthy (PDecimal x) = (x \<noteq> Finite 0)"
| "truthy (PText s) = (s \<noteq> [])"
| "truthy (PBytes b) = (b \<noteq> [])"
| "truthy (PDate _) = True"
| "truthy (PDatetime _ _) = True"
| "truthy (PTuple xs) = (xs \<noteq> [])"
| "truthy (PList xs) = (xs \<noteq> [])"
| "truthy (PSet xs) = (xs \<noteq> [])"
| "truthy (PFrozenSet xs) = (xs \<noteq> [])"
| "truthy (PObj _) = True"

section \<open>Exceptions\<close>

text \<open>
  A validation error is an exception of class \<^verbatim>\<open>ValidationError\<close> together with the
  context \<^verbatim>\<open>with_field_and_value\<close> attaches to it: the field (known by its
  \<^verbatim>\<open>__name__\<close>) and the offending value (\<^verbatim>\<open>None\<close> by default). The two aggregate
  errors carry their child errors; \<^verbatim>\<open>SchemaNotCorrectlyImplemented\<close> also carries the
  attributes \<^verbatim>\<open>schema_errors\<close> (a dictionary in insertion order) and
  \<^verbatim>\<open>invariant_errors\<close> that \<^verbatim>\<open>Object._validate\<close> sets on it. \<open>Invalid\<close> is
  the plain \<^verbatim>\<open>zope.interface.Invalid\<close> that a schema invariant raises.
\<close>

datatype dots_msg = TooFewDots int | TooManyDots int

datatype exc =
    RequiredMissing string
  | WrongType pyval "pytype option" string
  | ConstraintNotSatisfied pyval string
  | InvalidValue
  | TooSmall pyval pyval
  | TooBig pyval pyval
  | TooShort pyval nat
  | TooLong pyval nat
  | NotAnIterator pyval
  | InvalidFloatLiteral string
  | InvalidDecimalLiteral unicode
  | InvalidURI pyval
  | InvalidDottedName "dots_msg option" pyval
  | InvalidId pyval
  | NotUnique pyval
  | WrongContainedType "error list" string
  | SchemaNotProvided string pyval
  | SchemaNotFullyImplemented string
  | SchemaNotCorrectlyImplemented "error list" string "(string \<times> error) list" "error list"
  | Invalid string
and error = Err exc "string option" pyval

datatype exn =
    ValidationError error
  | ValueError string
  | TypeError string
  | AttributeError string
  | KeyError nat
  | UnicodeEncodeError

definition with_field_and_value :: "exc \<Rightarrow> string \<Rightarrow> pyval \<Rightarrow> exn" where
  "with_field_and_value e field_name v = ValidationError (Err e (Some field_name) v)"


section \<open>Built-in operations of the language\<close>

text \<open>Iteration: \<^verbatim>\<open>iter(value)\<close> raises \<^verbatim>\<open>TypeError\<close> on a value that is not iterable.\<close>

fun py_iter :: "pyval \<Rightarrow> exn + pyval list" where
  "py_iter (PText s) = Inr (map (\<lambda>c. PText [c]) s)"
| "py_iter (PBytes b) = Inr (map (\<lambda>c. PInt (int c)) b)"
| "py_iter (PTuple xs) = Inr xs"
| "py_iter (PList xs) = Inr xs"
| "py_iter (PSet xs) = Inr xs"
| "py_iter (PFrozenSet xs) = Inr xs"
| "py_iter _ = Inl (TypeError ''object is not iterable'')"

fun py_len :: "pyval \<Rightarrow> exn + nat" where
  "py_len (PText s) = Inr (length s)"
| "py_len (PBytes b) = Inr (length b)"
| "py_len (PTuple xs) = Inr (length xs)"
| "py_len (PList xs) = Inr (length xs)"
| "py_len (PSet xs) = Inr (length xs)"
| "py_len (PFrozenSet xs) = Inr (length xs)"
| "py_len _ = Inl (TypeError ''object has no len()'')"

text \<open>\<^verbatim>\<open>ord(c)\<close> wants a string (or byte string) of length one.\<close>

fun ord :: "pyval \<Rightarrow> exn + nat" where
  "ord (PText [c]) = Inr c"
| "ord (PBytes [c]) = Inr c"
| "ord _ = Inl (TypeError ''ord() expected a character'')"

text \<open>\<^verbatim>\<open>map(f, xs)\<close>, consumed to the end: the first exception of \<open>f\<close> ends it.\<close>

fun py_map :: "('a \<Rightarrow> exn + 'b) \<Rightarrow> 'a list \<Rightarrow> exn + 'b list" where
  "py_map f [] = Inr []"
| "py_map f (x # xs) =
     (case f x of
        Inl e \<Rightarrow> Inl e
      | Inr y \<Rightarrow> (case py_map f xs of Inl e \<Rightarrow> Inl e | Inr ys \<Rightarrow> Inr (y # ys)))"

text \<open>\<^verbatim>\<open>max(xs)\<close> raises \<^verbatim>\<open>ValueError\<close> on an empty sequence.\<close>

definition py_max :: "nat list \<Rightarrow> exn + nat" where
  "py_max xs =
     (case xs of
        [] \<Rightarrow> Inl (ValueError ''max() arg is an empty sequence'')
      | x # rest \<Rightarrow> Inr (fold max rest x))"

text \<open>
  Ordering comparison \<^verbatim>\<open>a <= b\<close>: defined between numbers, between dates and between
  datetimes; any other pair is unorderable (\<^verbatim>\<open>TypeError\<close>, here \<open>None\<close>), in particular
  a datetime against a date.
\<close>

fun pynum_le :: "pynum \<Rightarrow> pynum \<Rightarrow> bool" where
  "pynum_le NaN _ = False"
| "pynum_le _ NaN = False"
| "pynum_le NegInf _ = True"
| "pynum_le _ PosInf = True"
| "pynum_le (Finite a) (Finite b) = (a \<le> b)"
| "pynum_le _ _ = False"

fun num_of :: "pyval \<Rightarrow> pynum option" where
  "num_of (PBool b) = Some (Finite (if b then 1 else 0))"
| "num_of (PInt i) = Some (Finite (of_int i))"
| "num_of (PFloat x) = Some x"
| "num_of (PDecimal x) = Some x"
| "num_of _ = None"

fun py_le :: "pyval \<Rightarrow> pyval \<Rightarrow> bool option" where
  "py_le (PDate a) (PDate b) = Some (a \<le> b)"
| "py_le (PDatetime a s) (PDatetime b t) = Some (a < b \<or> (a = b \<and> s \<le> t))"
| "py_le x y =
     (case (num_of x, num_of y) of
        (Some a, Some b) \<Rightarrow> Some (pynum_le a b)
      | _ \<Rightarrow> None)"

section \<open>The base classes of the fields\<close>

text \<open>
  A field is a record of its attributes. \<open>name\<close> is \<^verbatim>\<open>__name__\<close>, \<open>ftype\<close> is the
  class attribute \<^verbatim>\<open>_type\<close> (\<open>None\<close>: any type), \<open>constraint\<close> the predicate of the
  instance (a method of the class unless the constructor was given another). The bounds
  \<^verbatim>\<open>min\<close> and \<^verbatim>\<open>max\<close> of an orderable field are \<open>min_field\<close> and \<open>max_field\<close>.
\<close>

record field =
  name :: string
  required :: bool
  missing_value :: pyval
  ftype :: "pytype option"
  constraint :: "pyval \<Rightarrow> bool"

record orderable_field = field +
  min_field :: "pyval option"
  max_field :: "pyval option"

record minmaxlen_field = field +
  min_length :: nat
  max_length :: "nat option"

text \<open>
  Modelled from the spec: \<^verbatim>\<open>Field._validate\<close> of \<^verbatim>\<open>zope/schema/_bootstrapfields.py\<close>,
  which is not part of the sources at hand. Section 4.1: validation fails with
  \<^verbatim>\<open>WrongType\<close> if \<^verbatim>\<open>_type\<close> is set and the value is not an instance of it, and with
  \<^verbatim>\<open>ConstraintNotSatisfied\<close> if the constraint predicate returns false.
\<close>

definition Field__validate :: "'a field_scheme \<Rightarrow> pyval \<Rightarrow> exn + unit" where
  "Field__validate self v =
     (if ftype self \<noteq> None \<and> \<not> isinstance v (the (ftype self))
      then Inl (with_field_and_value (WrongType v (ftype self) (name self)) (name self) v)
      else if \<not> constraint self v
      then Inl (with_field_and_value (ConstraintNotSatisfied v (name self)) (name self) v)
      else Inr ())"

text \<open>
  Modelled from the spec: \<^verbatim>\<open>Field.validate\<close> of \<^verbatim>\<open>_bootstrapfields.py\<close>. Section 4.1:
  it fails with \<^verbatim>\<open>RequiredMissing\<close> if the value is the missing-value sentinel and the
  field is required, skips every other check for a missing value, and otherwise runs the
  \<^verbatim>\<open>_validate\<close> of the field's class, which is the first argument here.
\<close>

definition Field_validate ::
  "(pyval \<Rightarrow> exn + unit) \<Rightarrow> 'a field_scheme \<Rightarrow> pyval \<Rightarrow> exn + unit" where
  "Field_validate self__validate self v =
     (if v = missing_value self
      then (if required self
            then Inl (with_field_and_value (RequiredMissing (name self)) (name self) v)
            else Inr ())
      else self__validate v)"

text \<open>
  Modelled from the spec: \<^verbatim>\<open>Orderable._validate\<close> of \<^verbatim>\<open>_bootstrapfields.py\<close>.
  Section 3: \<^verbatim>\<open>min <= value <= max\<close> when each bound is present; the value must
  support ordering comparison.
\<close>

definition Orderable__validate :: "'a orderable_field_scheme \<Rightarrow> pyval \<Rightarrow> exn + unit" where
  "Orderable__validate self v =
     (case Field__validate self v of
        Inl e \<Rightarrow> Inl e
      | Inr _ \<Rightarrow>
         (case (case min_field self of None \<Rightarrow> Some True | Some lo \<Rightarrow> py_le lo v) of
            None \<Rightarrow> Inl (TypeError ''unorderable types'')
          | Some False \<Rightarrow>
              Inl (with_field_and_value (TooSmall v (the (min_field self))) (name self) v)
          | Some True \<Rightarrow>
             (case (case max_field self of None \<Rightarrow> Some True | Some hi \<Rightarrow> py_le v hi) of
                None \<Rightarrow> Inl (TypeError ''unorderable types'')
              | Some False \<Rightarrow>
                  Inl (with_field_and_value (TooBig v (the (max_field self))) (name self) v)
              | Some True \<Rightarrow> Inr ())))"

text \<open>
  Modelled from the spec: \<^verbatim>\<open>MinMaxLen._validate\<close> of \<^verbatim>\<open>_bootstrapfields.py\<close>.
  Section 3: \<^verbatim>\<open>min_length\<close> and \<^verbatim>\<open>max_length\<close> bound the size of any value with a
  defined size.
\<close>

definition MinMaxLen__validate :: "'a minmaxlen_field_scheme \<Rightarrow> pyval \<Rightarrow> exn + unit" where
  "MinMaxLen__validate self v =
     (case Field__validate self v of
        Inl e \<Rightarrow> Inl e
      | Inr _ \<Rightarrow>
         (case py_len v of
            Inl e \<Rightarrow> Inl e
          | Inr n \<Rightarrow>
              if n < min_length self
              then Inl (with_field_and_value (TooShort v (min_length self)) (name self) v)
              else if max_length self \<noteq> None \<and> the (max_length self) < n
              then Inl (with_field_and_value (TooLong v (the (max_length self))) (name self) v)
              else Inr ()))"

text \<open>
  Modelled from the spec: the \<^verbatim>\<open>_validate\<close> of the collection fields' base classes
  (\<^verbatim>\<open>MinMaxLen\<close> and \<^verbatim>\<open>Iterable\<close> of \<^verbatim>\<open>_bootstrapfields.py\<close>). Section 4.4: the
  base container-type and length checks; a value that cannot be iterated is refused.
\<close>

definition Iterable__validate :: "'a minmaxlen_field_scheme \<Rightarrow> pyval \<Rightarrow> exn + unit" where
  "Iterable__validate self v =
     (case MinMaxLen__validate self v of
        Inl e \<Rightarrow> Inl e
      | Inr _ \<Rightarrow>
         (case py_iter v of
            Inl _ \<Rightarrow> Inl (with_field_and_value (NotAnIterator v) (name self) v)
          | Inr _ \<Rightarrow> Inr ()))"

text \<open>
  Modelled from the spec: \<^verbatim>\<open>TextLine.constraint\<close> of \<^verbatim>\<open>_bootstrapfields.py\<close>.
  Section 2: the line restriction of strings; a line field refuses a value that contains
  a newline, as \<^verbatim>\<open>BytesLine\<close> and \<^verbatim>\<open>ASCIILine\<close> of the module do.
\<close>

definition TextLine_constraint :: "pyval \<Rightarrow> bool" where
  "TextLine_constraint v = (case v of PText s \<Rightarrow> 10 \<notin> set s | _ \<Rightarrow> True)"

text \<open>
  Modelled from the spec: a \<^verbatim>\<open>TextLine\<close> field of \<^verbatim>\<open>_bootstrapfields.py\<close> built from
  a name and \<^verbatim>\<open>required\<close>. Sections 3 and 4.2: \<^verbatim>\<open>_type\<close> is the text type, the
  missing value is \<^verbatim>\<open>None\<close>, and no length bound is set.
\<close>

definition TextLine_field :: "string \<Rightarrow> bool \<Rightarrow> minmaxlen_field" where
  "TextLine_field nm req =
     \<lparr> name = nm, required = req, missing_value = PNone, ftype = Some T_text,
       constraint = TextLine_constraint, min_length = 0, max_length = None \<rparr>"

text \<open>
  Modelled from the spec: \<^verbatim>\<open>validate\<close> of a \<^verbatim>\<open>TextLine\<close> field. Section 4.1 and 3:
  \<^verbatim>\<open>Field.validate\<close> over the type, constraint and length checks.
\<close>

definition TextLine_validate :: "minmaxlen_field \<Rightarrow> pyval \<Rightarrow> exn + unit" where
  "TextLine_validate self v = Field_validate (MinMaxLen__validate self) self v"

text \<open>
  Modelled from the spec: an \<^verbatim>\<open>Int\<close> field of \<^verbatim>\<open>_bootstrapfields.py\<close> built from a
  name and \<^verbatim>\<open>required\<close>. Section 4.2: \<^verbatim>\<open>_type\<close> is the integer type; no bound is
  set.
\<close>

definition Int_field :: "string \<Rightarrow> bool \<Rightarrow> orderable_field" where
  "Int_field nm req =
     \<lparr> name = nm, required = req, missing_value = PNone, ftype = Some T_int,
       constraint = (\<lambda>_. True), min_field = None, max_field = None \<rparr>"

text \<open>
  Modelled from the spec: \<^verbatim>\<open>validate\<close> of an \<^verbatim>\<open>Int\<close> field. Sections 4.1 and 3:
  \<^verbatim>\<open>Field.validate\<close> over the type, constraint and range checks.
\<close>

definition Int_validate :: "orderable_field \<Rightarrow> pyval \<Rightarrow> exn + unit" where
  "Int_validate self v = Field_validate (Orderable__validate self) self v"

section \<open>Leaf fields of the module\<close>

subsection \<open>ASCII\<close>

text \<open>
  \<^verbatim>\<open>ASCII._validate\<close>. \<open>super__validate\<close> is the inherited \<^verbatim>\<open>_validate\<close>
  (\<^verbatim>\<open>NativeString\<close>'s, defined outside the module).
\<close>

definition ASCII__validate ::
  "(pyval \<Rightarrow> exn + unit) \<Rightarrow> 'a field_scheme \<Rightarrow> pyval \<Rightarrow> exn + unit" where
  "ASCII__validate super__validate self v =
     (case super__validate v of
        Inl e \<Rightarrow> Inl e
      | Inr _ \<Rightarrow>
          if \<not> truthy v then Inr ()
          else (case py_iter v of
                  Inl e \<Rightarrow> Inl e
                | Inr items \<Rightarrow>
                   (case py_map ord items of
                      Inl e \<Rightarrow> Inl e
                    | Inr cps \<Rightarrow>
                       (case py_max cps of
                          Inl e \<Rightarrow> Inl e
                        | Inr m \<Rightarrow>
                            if \<not> m < 128
                            then Inl (with_field_and_value InvalidValue (name self) v)
                            else Inr ()))))"

text \<open>
  \<^verbatim>\<open>ASCIILine.constraint\<close>: \<^verbatim>\<open>'\n' not in value\<close>. The inherited \<^verbatim>\<open>_validate\<close>
  calls it on values that passed the type check, which are strings.
\<close>

definition ASCIILine_constraint :: "pyval \<Rightarrow> bool" where
  "ASCIILine_constraint v = (case v of PText s \<Rightarrow> 10 \<notin> set s | _ \<Rightarrow> True)"

text \<open>
  Modelled from the spec: what an \<^verbatim>\<open>ASCII\<close> field inherits from \<^verbatim>\<open>Text\<close> of
  \<^verbatim>\<open>_bootstrapfields.py\<close> when built from a name and \<^verbatim>\<open>required\<close>. Sections 3 and
  4.2: \<^verbatim>\<open>_type\<close> is the text type, the missing value is \<^verbatim>\<open>None\<close>, no constraint
  and no length bound is set.
\<close>

definition ASCII_field :: "string \<Rightarrow> bool \<Rightarrow> minmaxlen_field" where
  "ASCII_field nm req =
     \<lparr> name = nm, required = req, missing_value = PNone, ftype = Some T_text,
       constraint = (\<lambda>_. True), min_length = 0, max_length = None \<rparr>"

text \<open>An \<^verbatim>\<open>ASCIILine\<close> field: an \<^verbatim>\<open>ASCII\<close> field with the constraint of its class.\<close>

definition ASCIILine_field :: "string \<Rightarrow> bool \<Rightarrow> minmaxlen_field" where
  "ASCIILine_field nm req = (ASCII_field nm req) \<lparr> constraint := ASCIILine_constraint \<rparr>"

text \<open>
  The public \<^verbatim>\<open>validate\<close> of both: the inherited \<^verbatim>\<open>Field.validate\<close>, which runs
  \<^verbatim>\<open>ASCII._validate\<close> over the inherited \<^verbatim>\<open>_validate\<close>.
\<close>

definition ASCII_validate :: "minmaxlen_field \<Rightarrow> pyval \<Rightarrow> exn + unit" where
  "ASCII_validate self v =
     Field_validate (ASCII__validate (MinMaxLen__validate self) self) self v"

subsection \<open>Date\<close>




subsection \<open>Regular expressions\<close>

text \<open>
  The two patterns of the module are plain regular expressions over code points, each
  ending in \<^verbatim>\<open>$\<close> and applied with \<^verbatim>\<open>match\<close>, which anchors the match at the start
  of the string. A regular expression is matched by taking its derivative along the
  string. Without the \<^verbatim>\<open>MULTILINE\<close> flag, \<^verbatim>\<open>$\<close> matches at the end of the string and
  just before a newline that ends the string; as the last item of a pattern it is
  therefore the expression \<open>Dollar\<close>, an optional final newline.
\<close>

datatype regex =
    Nothing
  | Empty
  | Sym "nat \<Rightarrow> bool"
  | Alt regex regex
  | Cat regex regex
  | Rep regex

fun accepts_empty :: "regex \<Rightarrow> bool" where
  "accepts_empty Nothing = False"
| "accepts_empty Empty = True"
| "accepts_empty (Sym _) = False"
| "accepts_empty (Alt r q) = (accepts_empty r \<or> accepts_empty q)"
| "accepts_empty (Cat r q) = (accepts_empty r \<and> accepts_empty q)"
| "accepts_empty (Rep _) = True"

fun after :: "nat \<Rightarrow> regex \<Rightarrow> regex" where
  "after c Nothing = Nothing"
| "after c Empty = Nothing"
| "after c (Sym p) = (if p c then Empty else Nothing)"
| "after c (Alt r q) = Alt (after c r) (after c q)"
| "after c (Cat r q) =
     (if accepts_empty r then Alt (Cat (after c r) q) (after c q) else Cat (after c r) q)"
| "after c (Rep r) = Cat (after c r) (Rep r)"

definition Dollar :: regex where
  "Dollar = Alt Empty (Sym (\<lambda>c. c = 10))"

definition Rep1 :: "regex \<Rightarrow> regex" where
  "Rep1 r = Cat r (Rep r)"

text \<open>
  \<^verbatim>\<open>pattern.match(value)\<close> for a pattern that ends in \<^verbatim>\<open>$\<close>; a value that is not a
  string raises \<^verbatim>\<open>TypeError\<close>.
\<close>

definition re_match :: "regex \<Rightarrow> pyval \<Rightarrow> exn + bool" where
  "re_match r v =
     (case v of
        PText s \<Rightarrow> Inr (accepts_empty (fold after s r))
      | _ \<Rightarrow> Inl (TypeError ''expected string or bytes-like object''))"

text \<open>
  White space, as \<^verbatim>\<open>\S\<close> and \<^verbatim>\<open>str.strip\<close> understand it on Python 3 strings.
\<close>

definition is_space :: "nat \<Rightarrow> bool" where
  "is_space c =
     (c \<in> set [9, 10, 11, 12, 13, 28, 29, 30, 31, 32, 133, 160, 5760,
               8232, 8233, 8239, 8287, 12288]
      \<or> (8192 \<le> c \<and> c \<le> 8202))"

definition in_range :: "nat \<Rightarrow> nat \<Rightarrow> nat \<Rightarrow> bool" where
  "in_range lo hi c = (lo \<le> c \<and> c \<le> hi)"

text \<open>
  \<^verbatim>\<open>_isuri\<close>: \<^verbatim>\<open>[a-zA-z0-9+.-]+:\S*$\<close>. The class is the source's: its second range
  runs from \<^verbatim>\<open>A\<close> to lower-case \<^verbatim>\<open>z\<close>.
\<close>

definition scheme_char :: "nat \<Rightarrow> bool" where
  "scheme_char c =
     (in_range 97 122 c \<or> in_range 65 122 c \<or> in_range 48 57 c
      \<or> c = 43 \<or> c = 46 \<or> c = 45)"

definition isuri_re :: regex where
  "isuri_re =
     Cat (Rep1 (Sym scheme_char))
       (Cat (Sym (\<lambda>c. c = 58))
         (Cat (Rep (Sym (\<lambda>c. \<not> is_space c))) Dollar))"

definition isuri :: "pyval \<Rightarrow> exn + bool" where
  "isuri v = re_match isuri_re v"

text \<open>\<^verbatim>\<open>_isdotted\<close>: \<^verbatim>\<open>([a-zA-Z][a-zA-Z0-9_]*)([.][a-zA-Z][a-zA-Z0-9_]*)*$\<close>.\<close>

definition letter :: "nat \<Rightarrow> bool" where
  "letter c = (in_range 97 122 c \<or> in_range 65 90 c)"

definition word_char :: "nat \<Rightarrow> bool" where
  "word_char c = (in_range 97 122 c \<or> in_range 65 90 c \<or> in_range 48 57 c \<or> c = 95)"

definition identifier_re :: regex where
  "identifier_re = Cat (Sym letter) (Rep (Sym word_char))"

definition isdotted_re :: regex where
  "isdotted_re =
     Cat identifier_re
       (Cat (Rep (Cat (Sym (\<lambda>c. c = 46)) identifier_re)) Dollar)"

definition isdotted :: "pyval \<Rightarrow> exn + bool" where
  "isdotted v = re_match isdotted_re v"

subsection \<open>URI, DottedName, Id\<close>


record dottedname_field = minmaxlen_field +
  min_dots :: int
  max_dots :: "int option"

text \<open>\<^verbatim>\<open>value.count(".")\<close> and \<^verbatim>\<open>"." in value\<close>, on a value that matched a pattern.\<close>

definition count_dots :: "pyval \<Rightarrow> int" where
  "count_dots v = (case v of PText s \<Rightarrow> int (count_list s 46) | _ \<Rightarrow> 0)"

definition has_dot :: "pyval \<Rightarrow> bool" where
  "has_dot v = (case v of PText s \<Rightarrow> 46 \<in> set s | _ \<Rightarrow> False)"

definition DottedName__validate ::
  "(pyval \<Rightarrow> exn + unit) \<Rightarrow> 'a dottedname_field_scheme \<Rightarrow> pyval \<Rightarrow> exn + unit" where
  "DottedName__validate super__validate self v =
     (case super__validate v of
        Inl e \<Rightarrow> Inl e
      | Inr _ \<Rightarrow>
         (case isdotted v of
            Inl e \<Rightarrow> Inl e
          | Inr False \<Rightarrow> Inl (with_field_and_value (InvalidDottedName None v) (name self) v)
          | Inr True \<Rightarrow>
             (let dots = count_dots v in
              if dots < min_dots self
              then Inl (with_field_and_value
                          (InvalidDottedName (Some (TooFewDots (min_dots self))) v) (name self) v)
              else if max_dots self \<noteq> None \<and> dots > the (max_dots self)
              then Inl (with_field_and_value
                          (InvalidDottedName (Some (TooManyDots (the (max_dots self)))) v)
                          (name self) v)
              else Inr ())))"

definition Id__validate ::
  "(pyval \<Rightarrow> exn + unit) \<Rightarrow> 'a field_scheme \<Rightarrow> pyval \<Rightarrow> exn + unit" where
  "Id__validate super__validate self v =
     (case super__validate v of
        Inl e \<Rightarrow> Inl e
      | Inr _ \<Rightarrow>
         (case isuri v of
            Inl e \<Rightarrow> Inl e
          | Inr True \<Rightarrow> Inr ()
          | Inr False \<Rightarrow>
             (case isdotted v of
                Inl e \<Rightarrow> Inl e
              | Inr d \<Rightarrow>
                  if d \<and> has_dot v then Inr ()
                  else Inl (with_field_and_value (InvalidId v) (name self) v))))"


text \<open>
  Modelled from the spec: the attributes of a \<^verbatim>\<open>DottedName\<close> field built from a name,
  \<^verbatim>\<open>required\<close> and the two bounds on the dots: those of a \<^verbatim>\<open>TextLine\<close> of
  \<^verbatim>\<open>_bootstrapfields.py\<close> (sections 3 and 4.2), with \<^verbatim>\<open>min_dots\<close> and
  \<^verbatim>\<open>max_dots\<close> as the constructor of the class stores them.
\<close>

definition DottedName_field :: "string \<Rightarrow> bool \<Rightarrow> int \<Rightarrow> int option \<Rightarrow> dottedname_field" where
  "DottedName_field nm req lo hi =
     \<lparr> name = nm, required = req, missing_value = PNone, ftype = Some T_text,
       constraint = TextLine_constraint, min_length = 0, max_length = None,
       min_dots = lo, max_dots = hi \<rparr>"

definition DottedName_validate :: "dottedname_field \<Rightarrow> pyval \<Rightarrow> exn + unit" where
  "DottedName_validate self v =
     Field_validate (DottedName__validate (MinMaxLen__validate self) self) self v"

definition Id_validate :: "minmaxlen_field \<Rightarrow> pyval \<Rightarrow> exn + unit" where
  "Id_validate self v =
     Field_validate (Id__validate (MinMaxLen__validate self) self) self v"

subsection \<open>fromUnicode\<close>













section \<open>Choice\<close>

text \<open>
  What \<^verbatim>\<open>Choice.__init__\<close> looks at in its \<^verbatim>\<open>vocabulary\<close> and \<^verbatim>\<open>source\<close>
  arguments: a string names a registered vocabulary, any other object is known by the
  interfaces it provides (and by its terms).
\<close>

record vocabulary_object =
  IBaseVocabulary :: bool
  ISource :: bool
  IContextSourceBinder :: bool
  terms :: "pyval list"

datatype vocabulary_arg = VocabularyName string | VocabularyObject vocabulary_object

text \<open>The attributes a \<^verbatim>\<open>Choice\<close> adds; \<open>init_field\<close> is \<^verbatim>\<open>_init_field\<close>.\<close>

record choice_field = field +
  vocabulary :: "vocabulary_object option"
  vocabularyName :: "string option"
  init_field :: bool

text \<open>
  Modelled from the spec: \<^verbatim>\<open>SimpleVocabulary.fromValues\<close> of
  \<^verbatim>\<open>zope/schema/vocabulary.py\<close>. Section 3: fixed values are materialized into an
  inline enumerable vocabulary.
\<close>

definition SimpleVocabulary_fromValues :: "pyval list \<Rightarrow> vocabulary_object" where
  "SimpleVocabulary_fromValues vals =
     \<lparr> IBaseVocabulary = True, ISource = True, IContextSourceBinder = False, terms = vals \<rparr>"

fun is_string :: "vocabulary_arg \<Rightarrow> bool" where
  "is_string (VocabularyName _) = True"
| "is_string (VocabularyObject _) = False"

fun provides :: "(vocabulary_object \<Rightarrow> bool) \<Rightarrow> vocabulary_arg \<Rightarrow> bool" where
  "provides iface (VocabularyName _) = False"
| "provides iface (VocabularyObject ob) = iface ob"

text \<open>
  \<^verbatim>\<open>Choice.__init__(values, vocabulary, source, **kw)\<close>. \<open>self\<close> is the object under
  construction; \<open>Field_init\<close> is the inherited constructor, called with the keyword
  arguments left over (it may raise, for instance on a default that does not validate).
\<close>

definition Choice_init ::
  "(choice_field \<Rightarrow> exn + choice_field) \<Rightarrow> choice_field \<Rightarrow> pyval list option
     \<Rightarrow> vocabulary_arg option \<Rightarrow> vocabulary_arg option \<Rightarrow> exn + choice_field" where
  "Choice_init Field_init self vals vocabulary_arg source =
     (if vocabulary_arg \<noteq> None
         \<and> \<not> is_string (the vocabulary_arg)
         \<and> \<not> provides IBaseVocabulary (the vocabulary_arg)
      then Inl (ValueError ''vocabulary must be a string or implement IBaseVocabulary'')
      else if vocabulary_arg \<noteq> None \<and> source \<noteq> None
      then Inl (ValueError ''You cannot specify both source and vocabulary.'')
      else
        (let voc = (if vocabulary_arg \<noteq> None then vocabulary_arg else source) in
         if vals = None \<and> voc = None
         then Inl (ValueError ''You must specify either values or vocabulary.'')
         else if vals \<noteq> None \<and> voc \<noteq> None
         then Inl (ValueError ''You cannot specify both values and vocabulary.'')
         else
           (case
              (if vals \<noteq> None
               then Inr (self \<lparr> vocabulary := Some (SimpleVocabulary_fromValues (the vals)),
                                vocabularyName := None \<rparr>)
               else (case the voc of
                       VocabularyName n \<Rightarrow>
                         Inr (self \<lparr> vocabulary := None, vocabularyName := Some n \<rparr>)
                     | VocabularyObject ob \<Rightarrow>
                         if \<not> ISource ob \<and> \<not> IContextSourceBinder ob
                         then Inl (ValueError ''Invalid vocabulary'')
                         else Inr (self \<lparr> vocabulary := Some ob, vocabularyName := None \<rparr>)))
            of
              Inl e \<Rightarrow> Inl e
            | Inr self1 \<Rightarrow>
               (let self2 = self1 \<lparr> init_field :=
                       (vocabularyName self1 \<noteq> None \<and> the (vocabularyName self1) \<noteq> []
                        \<or> (case vocabulary self1 of
                              None \<Rightarrow> False
                            | Some ob \<Rightarrow> IContextSourceBinder ob)) \<rparr>
                in case Field_init self2 of
                     Inl e \<Rightarrow> Inl e
                   | Inr self3 \<Rightarrow> Inr (self3 \<lparr> init_field := False \<rparr>)))))"

fun is_ValueError :: "exn + 'a \<Rightarrow> bool" where
  "is_ValueError (Inl (ValueError _)) = True"
| "is_ValueError _ = False"

fun is_TypeError :: "exn + 'a \<Rightarrow> bool" where
  "is_TypeError (Inl (TypeError _)) = True"
| "is_TypeError _ = False"

section \<open>Collections\<close>

text \<open>
  The recursive validator keeps, per thread, the table \<^verbatim>\<open>VALIDATED_VALUES.__dict__\<close> of
  the identities under validation. A field's \<^verbatim>\<open>validate\<close> may therefore read and change
  that table: a validator takes the value and the table and returns its outcome (\<open>Inl\<close> the
  exception raised) with the table it leaves behind. The fields that never touch the
  table are lifted by \<open>pure_validator\<close>.
\<close>

type_synonym visited = "nat set"

type_synonym validator = "pyval \<Rightarrow> visited \<Rightarrow> (exn + unit) \<times> visited"

definition pure_validator :: "(pyval \<Rightarrow> exn + unit) \<Rightarrow> validator" where
  "pure_validator f = (\<lambda>v vs. (f v, vs))"

text \<open>
  \<^verbatim>\<open>_validate_sequence(value_type, value, errors=None)\<close>. The loop catches
  \<^verbatim>\<open>ValidationError\<close> only: any other exception of the member's \<^verbatim>\<open>validate\<close> ends it.
\<close>

fun validate_sequence_loop ::
  "validator \<Rightarrow> pyval list \<Rightarrow> error list \<Rightarrow> visited \<Rightarrow> (exn + error list) \<times> visited" where
  "validate_sequence_loop value_type [] errors vs = (Inr errors, vs)"
| "validate_sequence_loop value_type (item # rest) errors vs =
     (case value_type item vs of
        (Inr _, vs') \<Rightarrow> validate_sequence_loop value_type rest errors vs'
      | (Inl (ValidationError error), vs') \<Rightarrow>
          validate_sequence_loop value_type rest (errors @ [error]) vs'
      | (Inl e, vs') \<Rightarrow> (Inl e, vs'))"

definition validate_sequence ::
  "validator option \<Rightarrow> pyval \<Rightarrow> error list option \<Rightarrow> visited
     \<Rightarrow> (exn + error list) \<times> visited" where
  "validate_sequence value_type v errors_arg vs =
     (let errors = (case errors_arg of None \<Rightarrow> [] | Some es \<Rightarrow> es) in
      case value_type of
        None \<Rightarrow> (Inr errors, vs)
      | Some vt \<Rightarrow>
         (case py_iter v of
            Inl e \<Rightarrow> (Inl e, vs)
          | Inr items \<Rightarrow> validate_sequence_loop vt items errors vs))"

text \<open>
  \<^verbatim>\<open>_validate_uniqueness(self, value)\<close>. \<open>eq x item\<close> is the comparison that
  \<^verbatim>\<open>item in temp_values\<close> makes between an earlier member \<open>x\<close> and \<open>item\<close> (identity or
  \<^verbatim>\<open>==\<close>, which the members' classes define).
\<close>

fun validate_uniqueness_loop ::
  "(pyval \<Rightarrow> pyval \<Rightarrow> bool) \<Rightarrow> string \<Rightarrow> pyval \<Rightarrow> pyval list \<Rightarrow> pyval list \<Rightarrow> exn + unit" where
  "validate_uniqueness_loop eq self_name v temp_values [] = Inr ()"
| "validate_uniqueness_loop eq self_name v temp_values (item # rest) =
     (if list_ex (\<lambda>x. eq x item) temp_values
      then Inl (with_field_and_value (NotUnique item) self_name v)
      else validate_uniqueness_loop eq self_name v (temp_values @ [item]) rest)"

definition validate_uniqueness ::
  "(pyval \<Rightarrow> pyval \<Rightarrow> bool) \<Rightarrow> 'a field_scheme \<Rightarrow> pyval \<Rightarrow> exn + unit" where
  "validate_uniqueness eq self v =
     (case py_iter v of
        Inl e \<Rightarrow> Inl e
      | Inr items \<Rightarrow> validate_uniqueness_loop eq (name self) v [] items)"

text \<open>
  An argument of a constructor is a plain value or a field object (known by its
  \<^verbatim>\<open>validate\<close>); only the latter provides \<^verbatim>\<open>IField\<close>.
\<close>

datatype kwarg = KwValue pyval | KwField validator

fun IField_providedBy :: "kwarg \<Rightarrow> bool" where
  "IField_providedBy (KwField _) = True"
| "IField_providedBy (KwValue _) = False"

fun kw_truthy :: "kwarg \<Rightarrow> bool" where
  "kw_truthy (KwValue v) = truthy v"
| "kw_truthy (KwField _) = True"

record collection_field = minmaxlen_field +
  value_type :: "validator option"
  unique :: kwarg

text \<open>
  \<^verbatim>\<open>AbstractCollection.__init__(value_type=None, unique=False, **kw)\<close>; \<open>super_init\<close>
  is the inherited constructor, which builds the field from the other keywords.
\<close>

definition AbstractCollection_init ::
  "((string \<rightharpoonup> kwarg) \<Rightarrow> exn + minmaxlen_field) \<Rightarrow> kwarg \<Rightarrow> kwarg \<Rightarrow> (string \<rightharpoonup> kwarg)
     \<Rightarrow> exn + collection_field" where
  "AbstractCollection_init super_init value_type_arg unique_arg kw =
     (case super_init kw of
        Inl e \<Rightarrow> Inl e
      | Inr self \<Rightarrow>
          if value_type_arg \<noteq> KwValue PNone \<and> \<not> IField_providedBy value_type_arg
          then Inl (ValueError ''value_type must be field instance.'')
          else Inr (minmaxlen_field.extend self
                      (collection_field.fields
                         (case value_type_arg of KwField vt \<Rightarrow> Some vt | KwValue _ \<Rightarrow> None)
                         unique_arg)))"

text \<open>
  How a call \<^verbatim>\<open>AbstractCollection.__init__(unique=True, **kw)\<close> binds the
  parameter \<^verbatim>\<open>value_type\<close>: from the keyword of that name, or to its default.
\<close>

definition keyword_or_None :: "(string \<rightharpoonup> kwarg) \<Rightarrow> string \<Rightarrow> kwarg" where
  "keyword_or_None kw k = (case kw k of None \<Rightarrow> KwValue PNone | Some a \<Rightarrow> a)"

text \<open>
  \<^verbatim>\<open>Set.__init__(**kw)\<close> and \<^verbatim>\<open>FrozenSet.__init__(**kw)\<close>. The object they return
  has the \<^verbatim>\<open>_type\<close> of its class.
\<close>

definition Set_init ::
  "((string \<rightharpoonup> kwarg) \<Rightarrow> exn + minmaxlen_field) \<Rightarrow> (string \<rightharpoonup> kwarg)
     \<Rightarrow> exn + collection_field" where
  "Set_init super_init kw =
     (if ''unique'' \<in> dom kw
      then Inl (TypeError ''__init__() got an unexpected keyword argument unique'')
      else (case AbstractCollection_init super_init
                   (keyword_or_None kw ''value_type'') (KwValue (PBool True))
                   (kw(''value_type'' := None)) of
              Inl e \<Rightarrow> Inl e
            | Inr self \<Rightarrow> Inr (self \<lparr> ftype := Some T_set \<rparr>)))"

definition FrozenSet_init ::
  "((string \<rightharpoonup> kwarg) \<Rightarrow> exn + minmaxlen_field) \<Rightarrow> (string \<rightharpoonup> kwarg)
     \<Rightarrow> exn + collection_field" where
  "FrozenSet_init super_init kw =
     (if ''unique'' \<in> dom kw
      then Inl (TypeError ''__init__() got an unexpected keyword argument unique'')
      else (case AbstractCollection_init super_init
                   (keyword_or_None kw ''value_type'') (KwValue (PBool True))
                   (kw(''value_type'' := None)) of
              Inl e \<Rightarrow> Inl e
            | Inr self \<Rightarrow> Inr (self \<lparr> ftype := Some T_frozenset \<rparr>)))"

text \<open>
  \<^verbatim>\<open>AbstractCollection._validate\<close>; \<open>super__validate\<close> is the inherited \<^verbatim>\<open>_validate\<close>
  (container type, length, iterability).
\<close>

definition AbstractCollection__validate ::
  "(pyval \<Rightarrow> exn + unit) \<Rightarrow> (pyval \<Rightarrow> pyval \<Rightarrow> bool) \<Rightarrow> collection_field \<Rightarrow> validator" where
  "AbstractCollection__validate super__validate eq self v vs =
     (case super__validate v of
        Inl e \<Rightarrow> (Inl e, vs)
      | Inr _ \<Rightarrow>
         (case validate_sequence (value_type self) v None vs of
            (Inl e, vs') \<Rightarrow> (Inl e, vs')
          | (Inr errors, vs') \<Rightarrow>
              if errors \<noteq> []
              then (Inl (with_field_and_value (WrongContainedType errors (name self))
                           (name self) v), vs')
              else if kw_truthy (unique self)
              then (validate_uniqueness eq self v, vs')
              else (Inr (), vs')))"

text \<open>
  Modelled from the spec: \<^verbatim>\<open>Field.validate\<close> once more (section 4.1), for the fields
  whose \<^verbatim>\<open>_validate\<close> works on the table of identities under validation.
\<close>

definition Field_validate_in :: "validator \<Rightarrow> 'a field_scheme \<Rightarrow> validator" where
  "Field_validate_in self__validate self v vs =
     (if v = missing_value self
      then (if required self
            then (Inl (with_field_and_value (RequiredMissing (name self)) (name self) v), vs)
            else (Inr (), vs))
      else self__validate v vs)"

text \<open>
  Modelled from the spec: the attributes of a \<^verbatim>\<open>Tuple\<close> field built from a name, a
  member field and \<^verbatim>\<open>unique\<close>. \<^verbatim>\<open>_type = tuple\<close> is the class's, in the module; the
  missing value \<^verbatim>\<open>None\<close> and the absence of a constraint and of length bounds are the
  defaults of the inherited constructor of \<^verbatim>\<open>_bootstrapfields.py\<close> (section 3).
\<close>

definition Tuple_field :: "string \<Rightarrow> validator option \<Rightarrow> bool \<Rightarrow> collection_field" where
  "Tuple_field nm vt uniq =
     \<lparr> name = nm, required = True, missing_value = PNone, ftype = Some T_tuple,
       constraint = (\<lambda>_. True), min_length = 0, max_length = None,
       value_type = vt, unique = KwValue (PBool uniq) \<rparr>"

text \<open>
  The public \<^verbatim>\<open>validate\<close> of a collection field: the inherited \<^verbatim>\<open>Field.validate\<close>,
  which runs \<^verbatim>\<open>AbstractCollection._validate\<close> over the inherited container checks.
\<close>

definition Collection_validate ::
  "(pyval \<Rightarrow> pyval \<Rightarrow> bool) \<Rightarrow> collection_field \<Rightarrow> validator" where
  "Collection_validate eq self v vs =
     Field_validate_in (AbstractCollection__validate (Iterable__validate self) eq self) self v vs"

text \<open>
  The outcome of validating one member against \<open>value_type\<close>: the validation error it
  raises, if it raises one.
\<close>

definition member_error :: "validator \<Rightarrow> visited \<Rightarrow> pyval \<Rightarrow> error option" where
  "member_error vt vs item =
     (case fst (vt item vs) of
        Inl (ValidationError e) \<Rightarrow> Some e
      | _ \<Rightarrow> None)"

fun is_ValidationError :: "exn \<Rightarrow> bool" where
  "is_ValidationError (ValidationError _) = True"
| "is_ValidationError _ = False"

section \<open>Object fields and the recursive validator\<close>

text \<open>
  What \<^verbatim>\<open>_validate_fields\<close> asks of an attribute of a schema: whether it is a method,
  a \<^verbatim>\<open>Choice\<close> (with its \<^verbatim>\<open>bind\<close>, which returns the bound field or raises), any
  other field (with its \<^verbatim>\<open>validate\<close>), or none of these.
\<close>

datatype attribute =
    MethodAttr
  | ChoiceAttr "pyval \<Rightarrow> exn + validator"
  | FieldAttr validator
  | PlainAttr

text \<open>
  A schema, as the module uses one: \<open>is_Interface\<close> tells whether it is
  \<^verbatim>\<open>zope.interface.Interface\<close> itself, \<open>names\<close> is \<^verbatim>\<open>schema.names(all=True)\<close>,
  \<open>getitem\<close> is \<^verbatim>\<open>schema[name]\<close>, and \<open>validateInvariants\<close> gives the errors that the
  method of that name appends to the list it is handed.
\<close>

record schema =
  schema_name :: string
  is_Interface :: bool
  names :: "string list"
  getitem :: "string \<Rightarrow> attribute"
  providedBy :: "pyval \<Rightarrow> bool"
  validateInvariants :: "pyval \<Rightarrow> error list"

text \<open>The two built-ins the validator applies to the value: \<^verbatim>\<open>id\<close> and \<^verbatim>\<open>getattr\<close>.\<close>

record runtime =
  py_id :: "pyval \<Rightarrow> nat"
  py_getattr :: "pyval \<Rightarrow> string \<Rightarrow> exn + pyval"

text \<open>
  The body of the inner \<^verbatim>\<open>try\<close> of \<^verbatim>\<open>_validate_fields\<close>, for one name. A
  \<^verbatim>\<open>Choice\<close> is bound to the value before the attribute is read.
\<close>

definition validate_attribute ::
  "runtime \<Rightarrow> attribute \<Rightarrow> pyval \<Rightarrow> string \<Rightarrow> visited \<Rightarrow> (exn + unit) \<times> visited" where
  "validate_attribute rt attr v nm vs =
     (case attr of
        MethodAttr \<Rightarrow> (Inr (), vs)
      | ChoiceAttr bind \<Rightarrow>
         (case bind v of
            Inl e \<Rightarrow> (Inl e, vs)
          | Inr bound \<Rightarrow>
             (case py_getattr rt v nm of
                Inl e \<Rightarrow> (Inl e, vs)
              | Inr x \<Rightarrow> bound x vs))
      | FieldAttr validate \<Rightarrow>
         (case py_getattr rt v nm of
            Inl e \<Rightarrow> (Inl e, vs)
          | Inr x \<Rightarrow> validate x vs)
      | PlainAttr \<Rightarrow> (Inr (), vs))"

text \<open>
  The two \<^verbatim>\<open>except\<close> clauses: the error recorded under the name for an exception they
  catch, \<open>None\<close> for an exception that propagates.
\<close>

fun except_clause :: "exn \<Rightarrow> string \<Rightarrow> error option" where
  "except_clause (ValidationError error) nm = Some error"
| "except_clause (AttributeError msg) nm =
     Some (Err (SchemaNotFullyImplemented msg) (Some nm) PNone)"
| "except_clause _ nm = None"

fun validate_fields_loop ::
  "runtime \<Rightarrow> schema \<Rightarrow> pyval \<Rightarrow> string list \<Rightarrow> (string \<times> error) list \<Rightarrow> visited
     \<Rightarrow> (exn + (string \<times> error) list) \<times> visited" where
  "validate_fields_loop rt sch v [] errors vs = (Inr errors, vs)"
| "validate_fields_loop rt sch v (nm # rest) errors vs =
     (case validate_attribute rt (getitem sch nm) v nm vs of
        (Inr _, vs') \<Rightarrow> validate_fields_loop rt sch v rest errors vs'
      | (Inl ex, vs') \<Rightarrow>
         (case except_clause ex nm of
            Some error \<Rightarrow>
              validate_fields_loop rt sch v rest (AList.update nm error errors) vs'
          | None \<Rightarrow> (Inl ex, vs')))"

text \<open>
  \<^verbatim>\<open>_validate_fields(schema, value)\<close>. The \<^verbatim>\<open>finally\<close> clause deletes the identity of
  the value from the table on every way out of the loop; \<^verbatim>\<open>del\<close> of a missing key
  raises \<^verbatim>\<open>KeyError\<close>.
\<close>

definition validate_fields ::
  "runtime \<Rightarrow> schema \<Rightarrow> pyval \<Rightarrow> visited \<Rightarrow> (exn + (string \<times> error) list) \<times> visited" where
  "validate_fields rt sch v vs =
     (if is_Interface sch then (Inr [], vs)
      else if py_id rt v \<in> vs then (Inr [], vs)
      else
        (case validate_fields_loop rt sch v (names sch) [] (insert (py_id rt v) vs) of
           (r, vs') \<Rightarrow>
             if py_id rt v \<in> vs' then (r, vs' - {py_id rt v})
             else (Inl (KeyError (py_id rt v)), vs')))"

record object_field = field +
  schema :: schema
  validate_invariants :: bool

text \<open>\<^verbatim>\<open>Object._validate\<close>; \<open>super__validate\<close> is \<^verbatim>\<open>Field._validate\<close>.\<close>

definition Object__validate ::
  "(pyval \<Rightarrow> exn + unit) \<Rightarrow> runtime \<Rightarrow> object_field \<Rightarrow> validator" where
  "Object__validate super__validate rt self v vs =
     (case super__validate v of
        Inl e \<Rightarrow> (Inl e, vs)
      | Inr _ \<Rightarrow>
          if \<not> providedBy (schema self) v
          then (Inl (with_field_and_value
                       (SchemaNotProvided (schema_name (schema self)) v) (name self) v), vs)
          else
            (case validate_fields rt (schema self) v vs of
               (Inl e, vs') \<Rightarrow> (Inl e, vs')
             | (Inr schema_error_dict, vs') \<Rightarrow>
                 (let invariant_errors =
                        (if validate_invariants self
                         then validateInvariants (schema self) v else [])
                  in if schema_error_dict \<noteq> [] \<or> invariant_errors \<noteq> []
                     then (Inl (with_field_and_value
                                  (SchemaNotCorrectlyImplemented
                                     (map snd schema_error_dict @ invariant_errors)
                                     (name self) schema_error_dict invariant_errors)
                                  (name self) v), vs')
                     else (Inr (), vs'))))"

text \<open>
  Modelled from the spec: the attributes of an \<^verbatim>\<open>Object\<close> field built from a name, a
  schema and \<^verbatim>\<open>validate_invariants\<close>. The class sets no \<^verbatim>\<open>_type\<close>; the missing
  value \<^verbatim>\<open>None\<close> and the absence of a constraint are the defaults of the inherited
  constructor of \<^verbatim>\<open>_bootstrapfields.py\<close> (section 3).
\<close>

definition Object_field :: "string \<Rightarrow> schema \<Rightarrow> bool \<Rightarrow> object_field" where
  "Object_field nm sch chk =
     \<lparr> name = nm, required = True, missing_value = PNone, ftype = None,
       constraint = (\<lambda>_. True), schema = sch, validate_invariants = chk \<rparr>"

text \<open>
  The public \<^verbatim>\<open>validate\<close> of an \<^verbatim>\<open>Object\<close> field: the inherited
  \<^verbatim>\<open>Field.validate\<close>, which runs \<^verbatim>\<open>Object._validate\<close> over \<^verbatim>\<open>Field._validate\<close>.
\<close>

definition Object_validate :: "runtime \<Rightarrow> object_field \<Rightarrow> validator" where
  "Object_validate rt self v vs =
     Field_validate_in (Object__validate (Field__validate self) rt self) self v vs"

text \<open>
  A validator keeps the table when it hands it back as it received it, whatever the
  outcome; an attribute does when its validator (for a \<^verbatim>\<open>Choice\<close>, every field that
  \<^verbatim>\<open>bind\<close> returns) does.
\<close>

definition keeps_table :: "validator \<Rightarrow> bool" where
  "keeps_table f = (\<forall>v vs. snd (f v vs) = vs)"

fun attribute_keeps_table :: "attribute \<Rightarrow> bool" where
  "attribute_keeps_table MethodAttr = True"
| "attribute_keeps_table (ChoiceAttr bind) =
     (\<forall>v bound. bind v = Inr bound \<longrightarrow> keeps_table bound)"
| "attribute_keeps_table (FieldAttr validate) = keeps_table validate"
| "attribute_keeps_table PlainAttr = True"

section \<open>Example objects\<close>

text \<open>
  A \<^verbatim>\<open>Choice\<close> object before its constructor ran, with the class's defaults, and an
  inherited constructor that accepts no further keyword.
\<close>

definition blank_choice :: choice_field where
  "blank_choice =
     \<lparr> name = [], required = True, missing_value = PNone, ftype = None,
       constraint = (\<lambda>_. True), vocabulary = None, vocabularyName = None,
       init_field = False \<rparr>"

definition plain_init :: "(string \<rightharpoonup> kwarg) \<Rightarrow> exn + minmaxlen_field" where
  "plain_init kw =
     (if kw = Map.empty
      then Inr \<lparr> name = [], required = True, missing_value = PNone, ftype = None,
                 constraint = (\<lambda>_. True), min_length = 0, max_length = None \<rparr>
      else Inl (TypeError ''__init__() got an unexpected keyword argument''))"

text \<open>
  A runtime over a table of objects: object \<open>i\<close> is \<open>PObj i\<close>, its attributes are
  \<open>h i\<close>, and reading an attribute it lacks raises \<^verbatim>\<open>AttributeError\<close>.
\<close>

definition heap_runtime :: "(nat \<Rightarrow> (string \<rightharpoonup> pyval)) \<Rightarrow> runtime" where
  "heap_runtime h =
     \<lparr> py_id = (\<lambda>v. case v of PObj i \<Rightarrow> Suc i | _ \<Rightarrow> 0),
       py_getattr = (\<lambda>v nm. case v of
                        PObj i \<Rightarrow> (case h i nm of
                                     None \<Rightarrow> Inl (AttributeError nm)
                                   | Some x \<Rightarrow> Inr x)
                      | _ \<Rightarrow> Inl (AttributeError nm)) \<rparr>"

text \<open>
  The cyclic graph of the specification: one object whose attribute \<^verbatim>\<open>next\<close> is the
  object itself, under a schema \<^verbatim>\<open>INode\<close> that declares \<^verbatim>\<open>next\<close> as an
  \<^verbatim>\<open>Object\<close> field of \<^verbatim>\<open>INode\<close>. \<open>Node_validate n\<close> is the \<^verbatim>\<open>validate\<close> of that
  field with the schema's reference to itself followed \<open>n\<close> times.
\<close>

definition loop_heap :: "nat \<Rightarrow> (string \<rightharpoonup> pyval)" where
  "loop_heap i = (if i = 1 then [''next'' \<mapsto> PObj 1] else Map.empty)"

primrec Node_validate :: "nat \<Rightarrow> validator" where
  "Node_validate 0 = pure_validator (\<lambda>_. Inl (ValueError ''schema not unfolded further''))"
| "Node_validate (Suc n) =
     Object_validate (heap_runtime loop_heap)
       (Object_field ''next''
          \<lparr> schema_name = ''INode'', is_Interface = False, names = [''next''],
            getitem = (\<lambda>_. FieldAttr (Node_validate n)),
            providedBy = (\<lambda>v. v = PObj 1), validateInvariants = (\<lambda>_. []) \<rparr> True)"

text \<open>A schema with a \<^verbatim>\<open>Choice\<close> whose \<^verbatim>\<open>bind\<close> raises \<^verbatim>\<open>ValueError\<close>.\<close>

definition unbound_choice_schema :: schema where
  "unbound_choice_schema =
     \<lparr> schema_name = ''IPick'', is_Interface = False, names = [''pick''],
       getitem = (\<lambda>_. ChoiceAttr (\<lambda>_. Inl (ValueError ''Invalid clone vocabulary''))),
       providedBy = (\<lambda>_. True), validateInvariants = (\<lambda>_. []) \<rparr>"

text \<open>
  A schema that declares \<^verbatim>\<open>x\<close> as an \<^verbatim>\<open>Int\<close>, and three objects: object 1 has no
  attribute \<^verbatim>\<open>x\<close>, object 2 has a string there, object 3 an integer.
\<close>

definition IX :: schema where
  "IX = \<lparr> schema_name = ''IX'', is_Interface = False, names = [''x''],
          getitem = (\<lambda>_. FieldAttr (pure_validator (Int_validate (Int_field ''x'' True)))),
          providedBy = (\<lambda>_. True), validateInvariants = (\<lambda>_. []) \<rparr>"

definition x_heap :: "nat \<Rightarrow> (string \<rightharpoonup> pyval)" where
  "x_heap i = (if i = 2 then [''x'' \<mapsto> PText (u ''not an int'')]
               else if i = 3 then [''x'' \<mapsto> PInt 7] else Map.empty)"




text \<open>The member field of the docstring of \<^verbatim>\<open>_validate_sequence\<close>: \<^verbatim>\<open>TextLine(required=True)\<close>.\<close>

definition TextLine_required :: validator where
  "TextLine_required = pure_validator (TextLine_validate (TextLine_field [] True))"

section \<open>Properties\<close>

lemma py_map_ord_chars: "py_map ord (map (\<lambda>c. PText [c]) s) = Inr s"
  by (induction s) simp_all

lemma fold_max_less: "fold max xs (x::nat) < n \<longleftrightarrow> x < n \<and> (\<forall>c\<in>set xs. c < n)"
  by (induction xs arbitrary: x) auto

lemma ASCII__validate_text:
  assumes "super__validate (PText s) = Inr ()"
  shows "ASCII__validate super__validate self (PText s) =
           (if \<forall>c\<in>set s. c < 128 then Inr ()
            else Inl (with_field_and_value InvalidValue (name self) (PText s)))"
proof (cases s)
  case Nil
  with assms show ?thesis by (simp add: ASCII__validate_def)
next
  case (Cons c cs)
  have "py_max s = Inr (fold max cs c)"
    using Cons by (simp add: py_max_def)
  with assms Cons show ?thesis
    using py_map_ord_chars [of s] fold_max_less [of cs c 128]
    by (auto simp add: ASCII__validate_def simp del: py_map.simps)
qed

subsection \<open>ASCII: the empty string\<close>

text \<open>
  C9. \<^verbatim>\<open>ASCII._validate\<close> (inherited by \<^verbatim>\<open>ASCIILine\<close>) returns at once for a falsy
  value that passed the inherited checks, so the empty string succeeds without any scan
  of its code points; \<^verbatim>\<open>max\<close> is never applied to an empty sequence, so its
  \<^verbatim>\<open>ValueError\<close> cannot come out of the method; and for a string that passed the
  inherited checks the method fails exactly when the string is non-empty and has a code
  point of 128 or more.
\<close>

theorem ASCII_validate_empty_string:
  "(super__validate v = Inr () \<and> \<not> truthy v
      \<longrightarrow> ASCII__validate super__validate self v = Inr ())
   \<and> (super__validate (PText s) = Inr ()
      \<longrightarrow> ASCII__validate super__validate self (PText s) =
            (if s = [] \<or> (\<forall>c\<in>set s. c < 128) then Inr ()
             else Inl (with_field_and_value InvalidValue (name self) (PText s)))
          \<and> (\<forall>msg. ASCII__validate super__validate self (PText s) \<noteq> Inl (ValueError msg)))"
proof -
  have falsy: "ASCII__validate super__validate self v = Inr ()"
    if "super__validate v = Inr ()" "\<not> truthy v"
    using that by (simp add: ASCII__validate_def)
  have scan: "ASCII__validate super__validate self (PText s) =
                (if s = [] \<or> (\<forall>c\<in>set s. c < 128) then Inr ()
                 else Inl (with_field_and_value InvalidValue (name self) (PText s)))"
    if "super__validate (PText s) = Inr ()"
    using that ASCII__validate_text [of super__validate s self] by auto
  have "ASCII__validate super__validate self (PText s) \<noteq> Inl (ValueError msg)"
    if "super__validate (PText s) = Inr ()" for msg
    using scan [OF that] by (simp add: with_field_and_value_def)
  with falsy scan show ?thesis by blast
qed

theorem ASCII_validate_empty_string_witness:
  "ASCII_validate (ASCII_field ''a'' True) (PText []) = Inr ()
   \<and> ASCII_validate (ASCIILine_field ''a'' True) (PText []) = Inr ()
   \<and> ASCII_validate (ASCII_field ''a'' True) (PText [233]) =
       Inl (with_field_and_value InvalidValue ''a'' (PText [233]))"
proof -
  let ?f = "ASCII_field ''a'' True"
  let ?g = "ASCIILine_field ''a'' True"
  have f: "MinMaxLen__validate ?f (PText s) = Inr ()" for s
    by (simp add: MinMaxLen__validate_def Field__validate_def ASCII_field_def)
  have g: "MinMaxLen__validate ?g (PText []) = Inr ()"
    by (simp add: MinMaxLen__validate_def Field__validate_def ASCII_field_def
        ASCIILine_field_def ASCIILine_constraint_def)
  have "ASCII__validate (MinMaxLen__validate ?f) ?f (PText []) = Inr ()"
    using ASCII_validate_empty_string [of "MinMaxLen__validate ?f" "PText []" ?f "[]"] f
    by simp
  moreover have "ASCII__validate (MinMaxLen__validate ?g) ?g (PText []) = Inr ()"
    using ASCII_validate_empty_string [of "MinMaxLen__validate ?g" "PText []" ?g "[]"] g
    by simp
  moreover have "ASCII__validate (MinMaxLen__validate ?f) ?f (PText [233]) =
                   Inl (with_field_and_value InvalidValue (name ?f) (PText [233]))"
    using ASCII_validate_empty_string [of "MinMaxLen__validate ?f" "PText []" ?f "[233]"] f
    by simp
  ultimately show ?thesis
    by (simp add: ASCII_validate_def Field_validate_def ASCII_field_def ASCIILine_field_def)
qed

subsection \<open>Date: no datetime\<close>



subsection \<open>Id: URI, or dotted name with a dot\<close>

text \<open>
  C10. After the inherited checks, \<^verbatim>\<open>Id._validate\<close> accepts a string that matches the
  URI pattern; a string that does not must match the dotted-name pattern and contain a
  dot, and is refused with \<^verbatim>\<open>InvalidId\<close> otherwise. So the single identifier
  \<^verbatim>\<open>foo\<close>, which the dotted-name pattern and a \<^verbatim>\<open>DottedName\<close> field accept, is refused
  by an \<^verbatim>\<open>Id\<close> field.
\<close>

theorem Id_validate_uri_or_dotted:
  "(super__validate (PText s) = Inr () \<longrightarrow>
      Id__validate super__validate self (PText s) =
        (if isuri (PText s) = Inr True then Inr ()
         else if isdotted (PText s) = Inr True \<and> 46 \<in> set s then Inr ()
         else Inl (with_field_and_value (InvalidId (PText s)) (name self) (PText s))))
   \<and> isdotted (PText (u ''foo'')) = Inr True
   \<and> DottedName_validate (DottedName_field ''n'' True 0 None) (PText (u ''foo'')) = Inr ()
   \<and> Id_validate (TextLine_field ''n'' True) (PText (u ''foo'')) =
       Inl (with_field_and_value (InvalidId (PText (u ''foo''))) ''n'' (PText (u ''foo'')))"
proof -
  have general: "Id__validate super__validate self (PText s) =
        (if isuri (PText s) = Inr True then Inr ()
         else if isdotted (PText s) = Inr True \<and> 46 \<in> set s then Inr ()
         else Inl (with_field_and_value (InvalidId (PText s)) (name self) (PText s)))"
    if "super__validate (PText s) = Inr ()"
    using that
    by (simp add: Id__validate_def isuri_def isdotted_def re_match_def has_dot_def)
  have dotted: "isdotted (PText (u ''foo'')) = Inr True"
    by (simp add: isdotted_def re_match_def isdotted_re_def identifier_re_def Dollar_def
        letter_def word_char_def in_range_def u_def)
  have uri: "isuri (PText (u ''foo'')) = Inr False"
    by (simp add: isuri_def re_match_def isuri_re_def Rep1_def Dollar_def scheme_char_def
        in_range_def u_def)
  have nodot: "\<not> has_dot (PText (u ''foo''))" "count_dots (PText (u ''foo'')) = 0"
    by (simp_all add: has_dot_def count_dots_def u_def)
  have line: "MinMaxLen__validate (TextLine_field ''n'' True) (PText (u ''foo'')) = Inr ()"
    by (simp add: MinMaxLen__validate_def Field__validate_def TextLine_field_def
        TextLine_constraint_def u_def)
  have dline: "MinMaxLen__validate (DottedName_field ''n'' True 0 None) (PText (u ''foo''))
                 = Inr ()"
    by (simp add: MinMaxLen__validate_def Field__validate_def DottedName_field_def
        TextLine_constraint_def u_def)
  have "DottedName_validate (DottedName_field ''n'' True 0 None) (PText (u ''foo'')) = Inr ()"
    using dline dotted nodot
    by (simp add: DottedName_validate_def Field_validate_def DottedName__validate_def
        DottedName_field_def)
  moreover have "Id_validate (TextLine_field ''n'' True) (PText (u ''foo'')) =
       Inl (with_field_and_value (InvalidId (PText (u ''foo''))) ''n'' (PText (u ''foo'')))"
    using line dotted uri nodot
    by (simp add: Id_validate_def Field_validate_def Id__validate_def TextLine_field_def)
  ultimately show ?thesis using general dotted by blast
qed

theorem Id_validate_uri_or_dotted_witness:
  "Id__validate (MinMaxLen__validate (TextLine_field ''n'' True)) (TextLine_field ''n'' True)
       (PText (u ''a.b'')) = Inr ()
   \<and> Id__validate (MinMaxLen__validate (TextLine_field ''n'' True)) (TextLine_field ''n'' True)
       (PText (u ''a:b'')) = Inr ()"
proof -
  let ?f = "TextLine_field ''n'' True"
  have line: "MinMaxLen__validate ?f (PText (u ''a.b'')) = Inr ()"
             "MinMaxLen__validate ?f (PText (u ''a:b'')) = Inr ()"
    by (simp_all add: MinMaxLen__validate_def Field__validate_def TextLine_field_def
        TextLine_constraint_def u_def)
  have m: "isdotted (PText (u ''a.b'')) = Inr True" "isuri (PText (u ''a:b'')) = Inr True"
    by (simp_all add: isdotted_def isuri_def re_match_def isdotted_re_def isuri_re_def
        identifier_re_def Rep1_def Dollar_def letter_def word_char_def scheme_char_def
        in_range_def is_space_def u_def)
  have d: "46 \<in> set (u ''a.b'')" by (simp add: u_def)
  show ?thesis
    using Id_validate_uri_or_dotted [of "MinMaxLen__validate ?f" "u ''a.b''" ?f]
      Id_validate_uri_or_dotted [of "MinMaxLen__validate ?f" "u ''a:b''" ?f]
      line m d
    by simp
qed

subsection \<open>Choice: one source of the vocabulary\<close>

text \<open>
  C7. \<^verbatim>\<open>Choice.__init__\<close> raises \<^verbatim>\<open>ValueError\<close> when none of \<^verbatim>\<open>values\<close>,
  \<^verbatim>\<open>vocabulary\<close> and \<^verbatim>\<open>source\<close> is given, when \<^verbatim>\<open>values\<close> and \<^verbatim>\<open>vocabulary\<close>
  are both given, and when \<^verbatim>\<open>source\<close> and \<^verbatim>\<open>vocabulary\<close> are both given; a
  construction that succeeds was given exactly one of the three.
\<close>

theorem Choice_init_exactly_one_source:
  "(vals = None \<and> vocabulary_arg = None \<and> source = None
      \<longrightarrow> is_ValueError (Choice_init Field_init self vals vocabulary_arg source))
   \<and> (vals \<noteq> None \<and> vocabulary_arg \<noteq> None
      \<longrightarrow> is_ValueError (Choice_init Field_init self vals vocabulary_arg source))
   \<and> (source \<noteq> None \<and> vocabulary_arg \<noteq> None
      \<longrightarrow> is_ValueError (Choice_init Field_init self vals vocabulary_arg source))
   \<and> (\<forall>c. Choice_init Field_init self vals vocabulary_arg source = Inr c
      \<longrightarrow> (vals \<noteq> None \<and> vocabulary_arg = None \<and> source = None)
          \<or> (vals = None \<and> vocabulary_arg \<noteq> None \<and> source = None)
          \<or> (vals = None \<and> vocabulary_arg = None \<and> source \<noteq> None))"
proof -
  have none: "is_ValueError (Choice_init Field_init self vals vocabulary_arg source)"
    if "vals = None" "vocabulary_arg = None" "source = None"
    using that by (simp add: Choice_init_def)
  have both_values: "is_ValueError (Choice_init Field_init self vals vocabulary_arg source)"
    if "vals \<noteq> None" "vocabulary_arg \<noteq> None"
    using that by (simp add: Choice_init_def)
  have both_source: "is_ValueError (Choice_init Field_init self vals vocabulary_arg source)"
    if "source \<noteq> None" "vocabulary_arg \<noteq> None"
    using that by (simp add: Choice_init_def)
  have values_source: "is_ValueError (Choice_init Field_init self vals vocabulary_arg source)"
    if "vals \<noteq> None" "source \<noteq> None"
    using that by (simp add: Choice_init_def)
  have ok: "(vals \<noteq> None \<and> vocabulary_arg = None \<and> source = None)
          \<or> (vals = None \<and> vocabulary_arg \<noteq> None \<and> source = None)
          \<or> (vals = None \<and> vocabulary_arg = None \<and> source \<noteq> None)"
    if "Choice_init Field_init self vals vocabulary_arg source = Inr c" for c
  proof -
    have "\<not> is_ValueError (Choice_init Field_init self vals vocabulary_arg source)"
      using that by simp
    with none both_values both_source values_source show ?thesis by blast
  qed
  from none both_values both_source ok show ?thesis by blast
qed

theorem Choice_init_exactly_one_source_witness:
  "is_ValueError (Choice_init Inr blank_choice None None None)
   \<and> is_ValueError (Choice_init Inr blank_choice (Some [PInt 1, PInt 2])
        (Some (VocabularyObject (SimpleVocabulary_fromValues [PInt 1]))) None)
   \<and> is_ValueError (Choice_init Inr blank_choice None
        (Some (VocabularyObject (SimpleVocabulary_fromValues [PInt 1])))
        (Some (VocabularyObject (SimpleVocabulary_fromValues [PInt 2]))))
   \<and> Choice_init Inr blank_choice (Some [PInt 1, PInt 2]) None None =
       Inr (blank_choice \<lparr> vocabulary := Some (SimpleVocabulary_fromValues [PInt 1, PInt 2]) \<rparr>)"
proof -
  let ?v = "Some (VocabularyObject (SimpleVocabulary_fromValues [PInt 1]))"
  let ?w = "Some (VocabularyObject (SimpleVocabulary_fromValues [PInt 2]))"
  have "Choice_init Inr blank_choice (Some [PInt 1, PInt 2]) None None =
       Inr (blank_choice \<lparr> vocabulary := Some (SimpleVocabulary_fromValues [PInt 1, PInt 2]) \<rparr>)"
    by (simp add: Choice_init_def blank_choice_def SimpleVocabulary_fromValues_def)
  then show ?thesis
    using Choice_init_exactly_one_source [of None None None Inr blank_choice]
      Choice_init_exactly_one_source [of "Some [PInt 1, PInt 2]" ?v None Inr blank_choice]
      Choice_init_exactly_one_source [of None ?v ?w Inr blank_choice]
    by simp
qed

subsection \<open>Set and FrozenSet: always unique\<close>

lemma AbstractCollection_init_unique:
  "AbstractCollection_init super_init vt uq kw = Inr f \<Longrightarrow> unique f = uq"
  by (auto simp add: AbstractCollection_init_def minmaxlen_field.extend_def
      collection_field.fields_def split: sum.splits if_splits)

text \<open>
  C6. The constructors of \<^verbatim>\<open>Set\<close> and \<^verbatim>\<open>FrozenSet\<close> raise \<^verbatim>\<open>TypeError\<close> whenever
  the keyword \<^verbatim>\<open>unique\<close> is passed, whatever its value; every field they return has
  \<^verbatim>\<open>unique\<close> equal to \<^verbatim>\<open>True\<close>.
\<close>

theorem Set_FrozenSet_always_unique:
  "(''unique'' \<in> dom kw
      \<longrightarrow> is_TypeError (Set_init super_init kw) \<and> is_TypeError (FrozenSet_init super_init kw))
   \<and> (\<forall>f. Set_init super_init kw = Inr f \<longrightarrow> unique f = KwValue (PBool True))
   \<and> (\<forall>f. FrozenSet_init super_init kw = Inr f \<longrightarrow> unique f = KwValue (PBool True))"
proof -
  have "is_TypeError (Set_init super_init kw)" "is_TypeError (FrozenSet_init super_init kw)"
    if "''unique'' \<in> dom kw"
    using that by (simp_all add: Set_init_def FrozenSet_init_def)
  moreover have "unique f = KwValue (PBool True)" if "Set_init super_init kw = Inr f" for f
    using that AbstractCollection_init_unique
    by (fastforce simp add: Set_init_def split: if_splits sum.splits)
  moreover have "unique f = KwValue (PBool True)" if "FrozenSet_init super_init kw = Inr f" for f
    using that AbstractCollection_init_unique
    by (fastforce simp add: FrozenSet_init_def split: if_splits sum.splits)
  ultimately show ?thesis by blast
qed

theorem Set_FrozenSet_always_unique_witness:
  "is_TypeError (Set_init plain_init [''unique'' \<mapsto> KwValue (PBool False)])
   \<and> is_TypeError (FrozenSet_init plain_init [''unique'' \<mapsto> KwValue (PBool True)])
   \<and> (\<exists>f. Set_init plain_init Map.empty = Inr f \<and> unique f = KwValue (PBool True))
   \<and> (\<exists>f. FrozenSet_init plain_init Map.empty = Inr f \<and> unique f = KwValue (PBool True))"
proof -
  obtain f where f: "Set_init plain_init Map.empty = Inr f"
    by (simp add: Set_init_def AbstractCollection_init_def plain_init_def keyword_or_None_def)
  obtain g where g: "FrozenSet_init plain_init Map.empty = Inr g"
    by (simp add: FrozenSet_init_def AbstractCollection_init_def plain_init_def
        keyword_or_None_def)
  show ?thesis
    using Set_FrozenSet_always_unique [of "[''unique'' \<mapsto> KwValue (PBool False)]" plain_init]
      Set_FrozenSet_always_unique [of "[''unique'' \<mapsto> KwValue (PBool True)]" plain_init]
      Set_FrozenSet_always_unique [of Map.empty plain_init] f g
    by simp
qed

subsection \<open>fromUnicode: the value returned is valid\<close>









subsection \<open>Collections: every member is checked\<close>

lemma Field_validate_in_pure:
  "Field_validate_in (pure_validator f) self = pure_validator (Field_validate f self)"
  by (rule ext)+ (simp add: Field_validate_in_def Field_validate_def pure_validator_def)

lemma uniqueness_loop_unique:
  "(\<forall>i<length items. \<not> list_ex (\<lambda>x. eq x (items ! i)) (temp @ take i items))
   \<Longrightarrow> validate_uniqueness_loop eq n v temp items = Inr ()"
proof (induction items arbitrary: temp)
  case Nil
  then show ?case by simp
next
  case (Cons item rest)
  from Cons.prems have first: "\<not> list_ex (\<lambda>x. eq x item) temp"
    by (metis append_Nil2 length_greater_0_conv list.discI nth_Cons_0 take_eq_Nil)
  have "\<forall>i<length rest. \<not> list_ex (\<lambda>x. eq x (rest ! i)) ((temp @ [item]) @ take i rest)"
  proof (intro allI impI)
    fix i assume "i < length rest"
    then have "Suc i < length (item # rest)" by simp
    with Cons.prems
    have "\<not> list_ex (\<lambda>x. eq x ((item # rest) ! Suc i)) (temp @ take (Suc i) (item # rest))"
      by blast
    then show "\<not> list_ex (\<lambda>x. eq x (rest ! i)) ((temp @ [item]) @ take i rest)" by simp
  qed
  with Cons.IH first show ?case by simp
qed

lemma uniqueness_loop_first_duplicate:
  "list_ex (\<lambda>x. eq x item) (temp @ pre)
   \<Longrightarrow> (\<forall>i<length pre. \<not> list_ex (\<lambda>x. eq x (pre ! i)) (temp @ take i pre))
   \<Longrightarrow> validate_uniqueness_loop eq n v temp (pre @ item # post)
         = Inl (with_field_and_value (NotUnique item) n v)"
proof (induction pre arbitrary: temp)
  case Nil
  then show ?case by simp
next
  case (Cons p ps)
  from Cons.prems(2) have first: "\<not> list_ex (\<lambda>x. eq x p) temp"
    by (metis append_Nil2 length_greater_0_conv list.discI nth_Cons_0 take_eq_Nil)
  have rest: "\<forall>i<length ps. \<not> list_ex (\<lambda>x. eq x (ps ! i)) ((temp @ [p]) @ take i ps)"
  proof (intro allI impI)
    fix i assume "i < length ps"
    then have "Suc i < length (p # ps)" by simp
    with Cons.prems(2)
    have "\<not> list_ex (\<lambda>x. eq x ((p # ps) ! Suc i)) (temp @ take (Suc i) (p # ps))"
      by blast
    then show "\<not> list_ex (\<lambda>x. eq x (ps ! i)) ((temp @ [p]) @ take i ps)" by simp
  qed
  from Cons.prems(1) have "list_ex (\<lambda>x. eq x item) ((temp @ [p]) @ ps)" by simp
  from Cons.IH [OF this rest] first show ?case by simp
qed

lemma validate_sequence_loop_errors:
  "(\<forall>item\<in>set items. snd (vt item vs) = vs
        \<and> (\<forall>e. fst (vt item vs) = Inl e \<longrightarrow> is_ValidationError e))
   \<Longrightarrow> validate_sequence_loop vt items errors vs
         = (Inr (errors @ List.map_filter (member_error vt vs) items), vs)"
proof (induction items arbitrary: errors)
  case Nil
  then show ?case by (simp add: List.map_filter_simps)
next
  case (Cons item rest)
  obtain r where r: "vt item vs = (r, vs)"
    using Cons.prems by (metis list.set_intros(1) prod.collapse)
  show ?case
  proof (cases r)
    case (Inr x)
    with r Cons show ?thesis
      by (simp add: List.map_filter_simps member_error_def)
  next
    case (Inl e)
    with r Cons.prems obtain err where "e = ValidationError err"
      by (metis fst_conv is_ValidationError.elims(2) list.set_intros(1))
    with Inl r Cons show ?thesis
      by (simp add: List.map_filter_simps member_error_def)
  qed
qed

text \<open>
  C1. Let the inherited checks of a collection field pass, and let \<^verbatim>\<open>validate\<close> of the
  member field, on every member, raise nothing but validation errors and leave the table
  of identities as it found it. Then \<^verbatim>\<open>_validate_sequence\<close> checks every member and
  returns, in the order of the container, the error of each member that fails; and if
  that list is not empty, \<^verbatim>\<open>AbstractCollection._validate\<close> raises one
  \<^verbatim>\<open>WrongContainedType\<close> that carries the whole list. For \<^verbatim>\<open>TextLine(required=True)\<close>
  over \<^verbatim>\<open>(b'foo', u'bar', 1)\<close> the list holds two \<^verbatim>\<open>WrongType\<close> errors, for the
  members at positions 0 and 2.
\<close>

theorem collection_errors_are_aggregated:
  "(py_iter v = Inr items
     \<and> (\<forall>item\<in>set items. snd (vt item vs) = vs
           \<and> (\<forall>e. fst (vt item vs) = Inl e \<longrightarrow> is_ValidationError e))
    \<longrightarrow> validate_sequence (Some vt) v None vs
          = (Inr (List.map_filter (member_error vt vs) items), vs)
        \<and> (super__validate v = Inr () \<and> value_type self = Some vt
              \<and> List.map_filter (member_error vt vs) items \<noteq> []
            \<longrightarrow> AbstractCollection__validate super__validate eq self v vs
                  = (Inl (with_field_and_value
                            (WrongContainedType (List.map_filter (member_error vt vs) items)
                               (name self))
                            (name self) v), vs)))
   \<and> validate_sequence (Some (pure_validator (TextLine_validate (TextLine_field [] True))))
         (PTuple [PBytes (u ''foo''), PText (u ''bar''), PInt 1]) None vs
       = (Inr [Err (WrongType (PBytes (u ''foo'')) (Some T_text) []) (Some [])
                 (PBytes (u ''foo'')),
               Err (WrongType (PInt 1) (Some T_text) []) (Some []) (PInt 1)], vs)"
proof -
  have seq: "validate_sequence (Some vt) v None vs
          = (Inr (List.map_filter (member_error vt vs) items), vs)"
    if "py_iter v = Inr items"
      and "\<forall>item\<in>set items. snd (vt item vs) = vs
           \<and> (\<forall>e. fst (vt item vs) = Inl e \<longrightarrow> is_ValidationError e)"
    using that validate_sequence_loop_errors [of items vt vs "[]"]
    by (simp add: validate_sequence_def)
  have coll: "AbstractCollection__validate super__validate eq self v vs
                  = (Inl (with_field_and_value
                            (WrongContainedType (List.map_filter (member_error vt vs) items)
                               (name self))
                            (name self) v), vs)"
    if "py_iter v = Inr items"
      and "\<forall>item\<in>set items. snd (vt item vs) = vs
           \<and> (\<forall>e. fst (vt item vs) = Inl e \<longrightarrow> is_ValidationError e)"
      and "super__validate v = Inr ()" "value_type self = Some vt"
      and "List.map_filter (member_error vt vs) items \<noteq> []"
    using that seq by (simp add: AbstractCollection__validate_def)
  have example: "validate_sequence
         (Some (pure_validator (TextLine_validate (TextLine_field [] True))))
         (PTuple [PBytes (u ''foo''), PText (u ''bar''), PInt 1]) None vs
       = (Inr [Err (WrongType (PBytes (u ''foo'')) (Some T_text) []) (Some [])
                 (PBytes (u ''foo'')),
               Err (WrongType (PInt 1) (Some T_text) []) (Some []) (PInt 1)], vs)"
    by (simp add: validate_sequence_def pure_validator_def TextLine_validate_def
        Field_validate_def MinMaxLen__validate_def Field__validate_def TextLine_field_def
        TextLine_constraint_def with_field_and_value_def u_def)
  from seq coll example show ?thesis by blast
qed

theorem collection_errors_are_aggregated_witness:
  "Collection_validate (=) (Tuple_field ''t'' (Some TextLine_required) False)
       (PTuple [PBytes (u ''foo''), PText (u ''bar''), PInt 1]) {}
     = (Inl (with_field_and_value
               (WrongContainedType
                  [Err (WrongType (PBytes (u ''foo'')) (Some T_text) []) (Some [])
                     (PBytes (u ''foo'')),
                   Err (WrongType (PInt 1) (Some T_text) []) (Some []) (PInt 1)] ''t'')
               ''t'' (PTuple [PBytes (u ''foo''), PText (u ''bar''), PInt 1])), {})"
proof -
  let ?items = "[PBytes (u ''foo''), PText (u ''bar''), PInt 1]"
  let ?self = "Tuple_field ''t'' (Some TextLine_required) False"
  have res: "TextLine_required (PBytes (u ''foo'')) {} =
               (Inl (ValidationError (Err (WrongType (PBytes (u ''foo'')) (Some T_text) [])
                  (Some []) (PBytes (u ''foo'')))), {})"
            "TextLine_required (PText (u ''bar'')) {} = (Inr (), {})"
            "TextLine_required (PInt 1) {} =
               (Inl (ValidationError (Err (WrongType (PInt 1) (Some T_text) [])
                  (Some []) (PInt 1))), {})"
    by (simp_all add: TextLine_required_def pure_validator_def TextLine_validate_def
        Field_validate_def MinMaxLen__validate_def Field__validate_def TextLine_field_def
        TextLine_constraint_def with_field_and_value_def u_def)
  have it: "py_iter (PTuple ?items) = Inr ?items" by simp
  have members: "\<forall>item\<in>set ?items. snd (TextLine_required item {}) = {}
      \<and> (\<forall>e. fst (TextLine_required item {}) = Inl e \<longrightarrow> is_ValidationError e)"
    using res by simp
  have errs: "List.map_filter (member_error TextLine_required {}) ?items =
      [Err (WrongType (PBytes (u ''foo'')) (Some T_text) []) (Some []) (PBytes (u ''foo'')),
       Err (WrongType (PInt 1) (Some T_text) []) (Some []) (PInt 1)]"
    using res by (simp add: List.map_filter_simps member_error_def)
  have sup: "Iterable__validate ?self (PTuple ?items) = Inr ()"
    by (simp add: Iterable__validate_def MinMaxLen__validate_def Field__validate_def
        Tuple_field_def)
  have vt: "value_type ?self = Some TextLine_required" by (simp add: Tuple_field_def)
  have "AbstractCollection__validate (Iterable__validate ?self) (=) ?self (PTuple ?items) {}
     = (Inl (with_field_and_value
               (WrongContainedType
                  (List.map_filter (member_error TextLine_required {}) ?items) (name ?self))
               (name ?self) (PTuple ?items)), {})"
    using collection_errors_are_aggregated
      [of "PTuple ?items" ?items TextLine_required "{}" "Iterable__validate ?self" ?self "(=)"]
      it members sup vt errs
    by simp
  then show ?thesis
    using errs by (simp add: Collection_validate_def Field_validate_in_def Tuple_field_def)
qed

text \<open>
  C2. When the member pass of \<^verbatim>\<open>AbstractCollection._validate\<close> found errors, the
  method raises \<^verbatim>\<open>WrongContainedType\<close> whatever \<^verbatim>\<open>unique\<close> is and however members
  compare: no uniqueness check runs. When it found none, the method succeeds if
  \<^verbatim>\<open>unique\<close> is not set, and if it is set the outcome is that of
  \<^verbatim>\<open>_validate_uniqueness\<close>, which raises \<^verbatim>\<open>NotUnique\<close> for the
  first member that compares equal to an earlier one (one error, for that member only)
  and succeeds if there is no such member.
\<close>

theorem uniqueness_after_member_validation:
  "(super__validate v = Inr ()
      \<and> validate_sequence (value_type self) v None vs = (Inr errors, vs') \<and> errors \<noteq> []
     \<longrightarrow> AbstractCollection__validate super__validate eq self v vs
          = (Inl (with_field_and_value (WrongContainedType errors (name self)) (name self) v),
             vs'))
   \<and> (super__validate v = Inr ()
      \<and> validate_sequence (value_type self) v None vs = (Inr [], vs')
      \<and> kw_truthy (unique self)
     \<longrightarrow> AbstractCollection__validate super__validate eq self v vs
          = (validate_uniqueness eq self v, vs'))
   \<and> (super__validate v = Inr ()
      \<and> validate_sequence (value_type self) v None vs = (Inr [], vs')
      \<and> \<not> kw_truthy (unique self)
     \<longrightarrow> AbstractCollection__validate super__validate eq self v vs = (Inr (), vs'))
   \<and> (py_iter v = Inr (pre @ item # post)
      \<and> list_ex (\<lambda>x. eq x item) pre
      \<and> (\<forall>i<length pre. \<not> list_ex (\<lambda>x. eq x (pre ! i)) (take i pre))
     \<longrightarrow> validate_uniqueness eq self v
          = Inl (with_field_and_value (NotUnique item) (name self) v))
   \<and> (py_iter v = Inr items
      \<and> (\<forall>i<length items. \<not> list_ex (\<lambda>x. eq x (items ! i)) (take i items))
     \<longrightarrow> validate_uniqueness eq self v = Inr ())"
proof -
  have b': "AbstractCollection__validate super__validate eq self v vs = (Inr (), vs')"
    if "super__validate v = Inr ()"
      "validate_sequence (value_type self) v None vs = (Inr [], vs')"
      "\<not> kw_truthy (unique self)"
    using that by (simp add: AbstractCollection__validate_def)
  have a: "AbstractCollection__validate super__validate eq self v vs
          = (Inl (with_field_and_value (WrongContainedType errors (name self)) (name self) v),
             vs')"
    if "super__validate v = Inr ()"
      "validate_sequence (value_type self) v None vs = (Inr errors, vs')" "errors \<noteq> []"
    using that by (simp add: AbstractCollection__validate_def)
  have b: "AbstractCollection__validate super__validate eq self v vs
          = (validate_uniqueness eq self v, vs')"
    if "super__validate v = Inr ()"
      "validate_sequence (value_type self) v None vs = (Inr [], vs')"
      "kw_truthy (unique self)"
    using that by (simp add: AbstractCollection__validate_def)
  have c: "validate_uniqueness eq self v
          = Inl (with_field_and_value (NotUnique item) (name self) v)"
    if "py_iter v = Inr (pre @ item # post)" "list_ex (\<lambda>x. eq x item) pre"
      "\<forall>i<length pre. \<not> list_ex (\<lambda>x. eq x (pre ! i)) (take i pre)"
    using that uniqueness_loop_first_duplicate [of eq item "[]" pre "name self" v post]
    by (simp add: validate_uniqueness_def)
  have d: "validate_uniqueness eq self v = Inr ()"
    if "py_iter v = Inr items"
      "\<forall>i<length items. \<not> list_ex (\<lambda>x. eq x (items ! i)) (take i items)"
    using that uniqueness_loop_unique [of items eq "[]" "name self" v]
    by (simp add: validate_uniqueness_def)
  from a b b' c d show ?thesis by blast
qed

theorem uniqueness_after_member_validation_witness:
  "Collection_validate (=) (Tuple_field ''t'' (Some TextLine_required) True)
       (PTuple [PText (u ''a''), PText (u ''b''), PText (u ''a''), PText (u ''b'')]) {}
     = (Inl (with_field_and_value (NotUnique (PText (u ''a''))) ''t''
               (PTuple [PText (u ''a''), PText (u ''b''), PText (u ''a''), PText (u ''b'')])),
        {})
   \<and> Collection_validate (=) (Tuple_field ''t'' (Some TextLine_required) True)
       (PTuple [PInt 1, PInt 1]) {}
     = (Inl (with_field_and_value
               (WrongContainedType
                  [Err (WrongType (PInt 1) (Some T_text) []) (Some []) (PInt 1),
                   Err (WrongType (PInt 1) (Some T_text) []) (Some []) (PInt 1)] ''t'')
               ''t'' (PTuple [PInt 1, PInt 1])), {})
   \<and> Collection_validate (=) (Tuple_field ''t'' (Some TextLine_required) True)
       (PTuple [PText (u ''a''), PText (u ''b'')]) {} = (Inr (), {})"
proof -
  let ?self = "Tuple_field ''t'' (Some TextLine_required) True"
  let ?dup = "PTuple [PText (u ''a''), PText (u ''b''), PText (u ''a''), PText (u ''b'')]"
  let ?bad = "PTuple [PInt 1, PInt 1]"
  let ?good = "PTuple [PText (u ''a''), PText (u ''b'')]"
  let ?errs = "[Err (WrongType (PInt 1) (Some T_text) []) (Some []) (PInt 1),
                Err (WrongType (PInt 1) (Some T_text) []) (Some []) (PInt 1)]"
  have sup: "Iterable__validate ?self ?dup = Inr ()" "Iterable__validate ?self ?bad = Inr ()"
    "Iterable__validate ?self ?good = Inr ()"
    by (simp_all add: Iterable__validate_def MinMaxLen__validate_def Field__validate_def
        Tuple_field_def)
  have seq: "validate_sequence (value_type ?self) ?dup None {} = (Inr [], {})"
    "validate_sequence (value_type ?self) ?bad None {} = (Inr ?errs, {})"
    "validate_sequence (value_type ?self) ?good None {} = (Inr [], {})"
    by (simp_all add: validate_sequence_def Tuple_field_def TextLine_required_def
        pure_validator_def TextLine_validate_def Field_validate_def MinMaxLen__validate_def
        Field__validate_def TextLine_field_def TextLine_constraint_def
        with_field_and_value_def u_def)
  have uq: "kw_truthy (unique ?self)" by (simp add: Tuple_field_def)
  have it: "py_iter ?dup = Inr ([PText (u ''a''), PText (u ''b'')] @ PText (u ''a'')
                                  # [PText (u ''b'')])"
    "py_iter ?good = Inr [PText (u ''a''), PText (u ''b'')]"
    by simp_all
  have first: "list_ex (\<lambda>x. x = PText (u ''a'')) [PText (u ''a''), PText (u ''b'')]"
    by simp
  have fresh: "\<forall>i<length [PText (u ''a''), PText (u ''b'')].
      \<not> list_ex (\<lambda>x. x = [PText (u ''a''), PText (u ''b'')] ! i)
           (take i [PText (u ''a''), PText (u ''b'')])"
    by (simp add: less_Suc_eq u_def)
  have "AbstractCollection__validate (Iterable__validate ?self) (=) ?self ?dup {}
          = (Inl (with_field_and_value (NotUnique (PText (u ''a''))) (name ?self) ?dup), {})"
    using uniqueness_after_member_validation
      [of "Iterable__validate ?self" ?dup ?self "{}" "[]" "{}" "(=)"
          "[PText (u ''a''), PText (u ''b'')]" "PText (u ''a'')" "[PText (u ''b'')]"
          "[PText (u ''a''), PText (u ''b'')]"]
      sup seq uq it first fresh
    by simp
  moreover have "AbstractCollection__validate (Iterable__validate ?self) (=) ?self ?bad {}
          = (Inl (with_field_and_value (WrongContainedType ?errs (name ?self)) (name ?self)
                    ?bad), {})"
    using uniqueness_after_member_validation
      [of "Iterable__validate ?self" ?bad ?self "{}" ?errs "{}" "(=)"] sup seq
    by simp
  moreover have "AbstractCollection__validate (Iterable__validate ?self) (=) ?self ?good {}
          = (Inr (), {})"
    using uniqueness_after_member_validation
      [of "Iterable__validate ?self" ?good ?self "{}" "[]" "{}" "(=)"
          "[]" "PNone" "[]" "[PText (u ''a''), PText (u ''b'')]"]
      sup seq uq it fresh
    by simp
  ultimately show ?thesis
    by (simp add: Collection_validate_def Field_validate_in_def Tuple_field_def)
qed

subsection \<open>The table of identities under validation\<close>

lemma validate_attribute_keeps_table:
  "attribute_keeps_table attr \<Longrightarrow> snd (validate_attribute rt attr v nm vs) = vs"
  by (cases attr) (auto simp add: validate_attribute_def keeps_table_def split: sum.splits)

lemma validate_fields_loop_keeps_table:
  "(\<forall>nm\<in>set ns. attribute_keeps_table (getitem sch nm))
   \<Longrightarrow> snd (validate_fields_loop rt sch v ns errors vs) = vs"
proof (induction ns arbitrary: errors)
  case Nil
  then show ?case by simp
next
  case (Cons nm rest)
  then have "snd (validate_attribute rt (getitem sch nm) v nm vs) = vs"
    by (simp add: validate_attribute_keeps_table)
  then obtain r where r: "validate_attribute rt (getitem sch nm) v nm vs = (r, vs)"
    by (metis prod.collapse)
  from Cons.prems have rest: "\<forall>nm\<in>set rest. attribute_keeps_table (getitem sch nm)"
    by simp
  show ?case
    using r Cons.IH [OF rest]
    by (simp split: sum.splits option.splits)
qed

lemma validate_fields_unfolded:
  assumes "\<forall>nm\<in>set (names sch). attribute_keeps_table (getitem sch nm)"
    and "\<not> is_Interface sch" "py_id rt v \<notin> vs"
  shows "validate_fields rt sch v vs =
           (fst (validate_fields_loop rt sch v (names sch) [] (insert (py_id rt v) vs)), vs)"
proof -
  obtain r where "validate_fields_loop rt sch v (names sch) [] (insert (py_id rt v) vs)
                    = (r, insert (py_id rt v) vs)"
    using validate_fields_loop_keeps_table [OF assms(1)] by (metis prod.collapse)
  with assms(2,3) show ?thesis by (simp add: validate_fields_def)
qed

lemma validate_fields_keeps_table:
  assumes "\<forall>nm\<in>set (names sch). attribute_keeps_table (getitem sch nm)"
  shows "snd (validate_fields rt sch v vs) = vs"
proof (cases "is_Interface sch \<or> py_id rt v \<in> vs")
  case True
  then show ?thesis by (auto simp add: validate_fields_def)
next
  case False
  with validate_fields_unfolded [OF assms] show ?thesis by simp
qed

lemma Object__validate_keeps_table:
  assumes "\<forall>nm\<in>set (names (schema self)). attribute_keeps_table (getitem (schema self) nm)"
  shows "snd (Object__validate super__validate rt self v vs) = vs"
proof -
  obtain r where "validate_fields rt (schema self) v vs = (r, vs)"
    using validate_fields_keeps_table [OF assms] by (metis prod.collapse)
  then show ?thesis
    by (simp add: Object__validate_def Let_def split: sum.splits)
qed

lemma Object_validate_keeps_table:
  assumes "\<forall>nm\<in>set (names (schema self)). attribute_keeps_table (getitem (schema self) nm)"
  shows "keeps_table (Object_validate rt self)"
  using Object__validate_keeps_table [OF assms]
  by (simp add: keeps_table_def Object_validate_def Field_validate_in_def)

lemma pure_validator_keeps_table: "keeps_table (pure_validator f)"
  by (simp add: keeps_table_def pure_validator_def)

lemma validate_sequence_loop_keeps_table:
  "keeps_table vt \<Longrightarrow> snd (validate_sequence_loop vt items errors vs) = vs"
proof (induction items arbitrary: errors)
  case Nil
  then show ?case by simp
next
  case (Cons item rest)
  then obtain r where "vt item vs = (r, vs)"
    by (metis keeps_table_def prod.collapse)
  with Cons show ?case
    by (simp split: sum.splits exn.splits)
qed

lemma Collection_validate_keeps_table:
  assumes "\<forall>vt. value_type self = Some vt \<longrightarrow> keeps_table vt"
  shows "keeps_table (Collection_validate eq self)"
proof -
  have "snd (validate_sequence (value_type self) v None vs) = vs" for v vs
    using assms validate_sequence_loop_keeps_table
    by (auto simp add: validate_sequence_def split: option.splits sum.splits)
  then have "snd (AbstractCollection__validate (Iterable__validate self) eq self v vs) = vs"
    for v vs
    by (auto simp add: AbstractCollection__validate_def split: sum.splits prod.splits)
       (metis snd_conv)+
  then show ?thesis
    by (simp add: keeps_table_def Collection_validate_def Field_validate_in_def)
qed

lemma Node_validate_keeps_table: "keeps_table (Node_validate n)"
proof (induction n)
  case 0
  show ?case by (simp add: pure_validator_keeps_table)
next
  case (Suc n)
  show ?case
    unfolding Node_validate.simps
    by (rule Object_validate_keeps_table) (simp add: Object_field_def Suc)
qed

text \<open>
  C4. \<^verbatim>\<open>_validate_fields\<close> returns an empty error mapping at once, the table
  untouched, when the identity of the value is already in the table of the running
  thread. Otherwise it runs the walk over the attributes with the identity added, and
  hands the table back exactly as it received it, whether the walk returned or raised;
  so does the \<^verbatim>\<open>validate\<close> of an \<^verbatim>\<open>Object\<close> field. This holds whenever the fields
  of the schema's attributes keep the table themselves, which the fields of the module
  do: the leaf fields never touch it, a collection field keeps it when its member field
  does, and an \<^verbatim>\<open>Object\<close> field keeps it by this very property.
\<close>

theorem visited_table_is_restored:
  "(py_id rt v \<in> vs \<longrightarrow> validate_fields rt sch v vs = (Inr [], vs))
   \<and> ((\<forall>nm\<in>set (names sch). attribute_keeps_table (getitem sch nm)) \<longrightarrow>
        snd (validate_fields rt sch v vs) = vs
        \<and> (\<not> is_Interface sch \<and> py_id rt v \<notin> vs \<longrightarrow>
             validate_fields rt sch v vs =
               (fst (validate_fields_loop rt sch v (names sch) []
                       (insert (py_id rt v) vs)), vs))
        \<and> (schema self = sch \<longrightarrow> snd (Object_validate rt self v vs) = vs))"
proof -
  have "validate_fields rt sch v vs = (Inr [], vs)" if "py_id rt v \<in> vs"
    using that by (simp add: validate_fields_def)
  moreover have "snd (validate_fields rt sch v vs) = vs"
    if "\<forall>nm\<in>set (names sch). attribute_keeps_table (getitem sch nm)"
    using validate_fields_keeps_table [OF that] .
  moreover have "validate_fields rt sch v vs =
               (fst (validate_fields_loop rt sch v (names sch) []
                       (insert (py_id rt v) vs)), vs)"
    if "\<forall>nm\<in>set (names sch). attribute_keeps_table (getitem sch nm)"
      "\<not> is_Interface sch" "py_id rt v \<notin> vs"
    using validate_fields_unfolded [OF that] .
  moreover have "snd (Object_validate rt self v vs) = vs"
    if "\<forall>nm\<in>set (names sch). attribute_keeps_table (getitem sch nm)" "schema self = sch"
    using that Object_validate_keeps_table [of self rt] by (simp add: keeps_table_def)
  ultimately show ?thesis by blast
qed

theorem visited_table_is_restored_witness:
  "Node_validate 2 (PObj 1) {} = (Inr (), {})
   \<and> validate_fields (heap_runtime loop_heap) unbound_choice_schema (PObj 1) {}
       = (Inl (ValueError ''Invalid clone vocabulary''), {})
   \<and> validate_fields (heap_runtime loop_heap) unbound_choice_schema (PObj 1) {2}
       = (Inr [], {2})"
proof -
  let ?rt = "heap_runtime loop_heap"
  let ?sch = "\<lparr> schema_name = ''INode'', is_Interface = False, names = [''next''],
            getitem = (\<lambda>_. FieldAttr (Node_validate 1)),
            providedBy = (\<lambda>v. v = PObj 1), validateInvariants = (\<lambda>_. []) \<rparr>"
  let ?self = "Object_field ''next'' ?sch True"
  have two: "Node_validate 2 = Object_validate ?rt ?self"
    by (simp add: numeral_2_eq_2)
  have inner: "keeps_table (Node_validate 1)"
    by (rule Node_validate_keeps_table)
  have node: "\<forall>nm\<in>set (names ?sch). attribute_keeps_table (getitem ?sch nm)"
    using inner by (simp del: Node_validate.simps)
  have pick: "\<forall>nm\<in>set (names unbound_choice_schema).
                attribute_keeps_table (getitem unbound_choice_schema nm)"
    by (simp add: unbound_choice_schema_def)
  have seen: "py_id ?rt (PObj 1) \<in> {2}" "py_id ?rt (PObj 1) \<notin> {}"
    by (simp_all add: heap_runtime_def)
  have "snd (Node_validate 2 (PObj 1) {}) = {}"
    using visited_table_is_restored [of ?rt "PObj 1" "{}" ?sch ?self] node two
    by (simp add: Object_field_def)
  moreover have "fst (Node_validate 2 (PObj 1) {}) = Inr ()"
    by (simp add: numeral_2_eq_2 Object_validate_def Field_validate_in_def
        Object__validate_def Field__validate_def Object_field_def validate_fields_def
        validate_attribute_def heap_runtime_def loop_heap_def)
  moreover have "snd (validate_fields ?rt unbound_choice_schema (PObj 1) {}) = {}"
    using visited_table_is_restored [of ?rt "PObj 1" "{}" unbound_choice_schema] pick
    by simp
  moreover have "fst (validate_fields ?rt unbound_choice_schema (PObj 1) {})
                   = Inl (ValueError ''Invalid clone vocabulary'')"
    by (simp add: validate_fields_def validate_attribute_def unbound_choice_schema_def
        heap_runtime_def)
  moreover have "validate_fields ?rt unbound_choice_schema (PObj 1) {2} = (Inr [], {2})"
    using visited_table_is_restored [of ?rt "PObj 1" "{2}" unbound_choice_schema] seen
    by simp
  ultimately show ?thesis by (simp add: prod_eq_iff)
qed

subsection \<open>Object fields: errors by attribute\<close>

lemma loop_keeps_entry:
  "x \<notin> set ns \<Longrightarrow> validate_fields_loop rt sch v ns errors vs = (Inr d, vs')
   \<Longrightarrow> map_of d x = map_of errors x"
proof (induction ns arbitrary: errors vs)
  case Nil
  then show ?case by simp
next
  case (Cons nm rest)
  then have ne: "nm \<noteq> x" and notin: "x \<notin> set rest" by auto
  obtain r s where step: "validate_attribute rt (getitem sch nm) v nm vs = (r, s)"
    by (metis prod.collapse)
  show ?case
  proof (cases r)
    case (Inr ok)
    with step Cons.prems(2) have "validate_fields_loop rt sch v rest errors s = (Inr d, vs')"
      by simp
    from Cons.IH [OF notin this] show ?thesis .
  next
    case (Inl ex)
    show ?thesis
    proof (cases "except_clause ex nm")
      case None
      with Inl step Cons.prems(2) show ?thesis by simp
    next
      case (Some err)
      with Inl step Cons.prems(2)
      have "validate_fields_loop rt sch v rest (AList.update nm err errors) s = (Inr d, vs')"
        by simp
      from Cons.IH [OF notin this] ne show ?thesis by (simp add: update_conv')
    qed
  qed
qed

lemma loop_records_entry:
  "x \<in> set ns
   \<Longrightarrow> (\<forall>s. fst (validate_attribute rt (getitem sch x) v x s) = Inl ex)
   \<Longrightarrow> except_clause ex x = Some err
   \<Longrightarrow> validate_fields_loop rt sch v ns errors vs = (Inr d, vs')
   \<Longrightarrow> map_of d x = Some err"
proof (induction ns arbitrary: errors vs)
  case Nil
  then show ?case by simp
next
  case (Cons nm rest)
  obtain r s where step: "validate_attribute rt (getitem sch nm) v nm vs = (r, s)"
    by (metis prod.collapse)
  show ?case
  proof (cases "nm = x")
    case True
    with step Cons.prems(2) have r: "r = Inl ex" by (metis fst_conv)
    with step True Cons.prems(3,4)
    have rest: "validate_fields_loop rt sch v rest (AList.update x err errors) s = (Inr d, vs')"
      by simp
    show ?thesis
    proof (cases "x \<in> set rest")
      case True
      from Cons.IH [OF True Cons.prems(2,3) rest] show ?thesis .
    next
      case False
      from loop_keeps_entry [OF False rest] show ?thesis by (simp add: update_conv')
    qed
  next
    case False
    with Cons.prems(1) have inrest: "x \<in> set rest" by simp
    show ?thesis
    proof (cases r)
      case (Inr ok)
      with step Cons.prems(4) have "validate_fields_loop rt sch v rest errors s = (Inr d, vs')"
        by simp
      from Cons.IH [OF inrest Cons.prems(2,3) this] show ?thesis .
    next
      case (Inl e)
      show ?thesis
      proof (cases "except_clause e nm")
        case None
        with Inl step Cons.prems(4) show ?thesis by simp
      next
        case (Some err')
        with Inl step Cons.prems(4)
        have "validate_fields_loop rt sch v rest (AList.update nm err' errors) s = (Inr d, vs')"
          by simp
        from Cons.IH [OF inrest Cons.prems(2,3) this] show ?thesis .
      qed
    qed
  qed
qed

lemma loop_distinct_names:
  "distinct (map fst errors) \<Longrightarrow> validate_fields_loop rt sch v ns errors vs = (Inr d, vs')
   \<Longrightarrow> distinct (map fst d)"
proof (induction ns arbitrary: errors vs)
  case Nil
  then show ?case by simp
next
  case (Cons nm rest)
  obtain r s where step: "validate_attribute rt (getitem sch nm) v nm vs = (r, s)"
    by (metis prod.collapse)
  show ?case
  proof (cases r)
    case (Inr ok)
    with step Cons.prems(2) have "validate_fields_loop rt sch v rest errors s = (Inr d, vs')"
      by simp
    from Cons.IH [OF Cons.prems(1) this] show ?thesis .
  next
    case (Inl ex)
    show ?thesis
    proof (cases "except_clause ex nm")
      case None
      with Inl step Cons.prems(2) show ?thesis by simp
    next
      case (Some err)
      with Inl step Cons.prems(2)
      have "validate_fields_loop rt sch v rest (AList.update nm err errors) s = (Inr d, vs')"
        by simp
      moreover have "distinct (map fst (AList.update nm err errors))"
        using Cons.prems(1) by (simp add: distinct_update)
      ultimately show ?thesis using Cons.IH by blast
    qed
  qed
qed

lemma Int_validate_wrong_type:
  "w \<noteq> PNone \<Longrightarrow> \<not> isinstance w T_int
   \<Longrightarrow> Int_validate (Int_field nm req) w
         = Inl (ValidationError (Err (WrongType w (Some T_int) nm) (Some nm) w))"
  by (simp add: Int_validate_def Field_validate_def Orderable__validate_def
      Field__validate_def Int_field_def with_field_and_value_def)

text \<open>
  C3. Take an \<^verbatim>\<open>Object\<close> field whose schema declares \<^verbatim>\<open>x\<close> as an \<^verbatim>\<open>Int\<close>, and a
  value that passes the inherited checks, provides the schema, and whose attribute walk
  completes (no attribute raises anything but a validation or attribute error). If the
  value has no attribute \<^verbatim>\<open>x\<close>, the error mapping holds a
  \<^verbatim>\<open>SchemaNotFullyImplemented\<close> under \<^verbatim>\<open>x\<close>; if its \<^verbatim>\<open>x\<close> is a value other than
  \<^verbatim>\<open>None\<close> that is not an integer, it holds a \<^verbatim>\<open>WrongType\<close> there. Either way
  \<^verbatim>\<open>Object._validate\<close> raises one \<^verbatim>\<open>SchemaNotCorrectlyImplemented\<close> that carries the
  mapping as \<^verbatim>\<open>schema_errors\<close> and the invariant errors as \<^verbatim>\<open>invariant_errors\<close>, two
  separate collections, and the mapping has one entry per attribute name at most.
\<close>

theorem Object_validate_attribute_errors:
  "super__validate v = Inr () \<and> providedBy (schema self) v
   \<and> ''x'' \<in> set (names (schema self))
   \<and> getitem (schema self) ''x'' = FieldAttr (pure_validator (Int_validate (Int_field ''x'' req)))
   \<and> validate_fields rt (schema self) v vs = (Inr d, vs')
   \<and> \<not> is_Interface (schema self) \<and> py_id rt v \<notin> vs
   \<and> ierrs = (if validate_invariants self then validateInvariants (schema self) v else [])
   \<and> ((\<exists>msg. py_getattr rt v ''x'' = Inl (AttributeError msg))
        \<or> (\<exists>w. py_getattr rt v ''x'' = Inr w \<and> w \<noteq> PNone \<and> \<not> isinstance w T_int))
   \<longrightarrow>
     Object__validate super__validate rt self v vs
       = (Inl (with_field_and_value
                 (SchemaNotCorrectlyImplemented (map snd d @ ierrs) (name self) d ierrs)
                 (name self) v), vs')
     \<and> distinct (map fst d)
     \<and> (\<forall>msg. py_getattr rt v ''x'' = Inl (AttributeError msg) \<longrightarrow>
           map_of d ''x'' = Some (Err (SchemaNotFullyImplemented msg) (Some ''x'') PNone))
     \<and> (\<forall>w. py_getattr rt v ''x'' = Inr w \<longrightarrow>
           map_of d ''x'' = Some (Err (WrongType w (Some T_int) ''x'') (Some ''x'') w))"
proof (intro impI, elim conjE)
  let ?sch = "schema self"
  assume sup: "super__validate v = Inr ()" and prov: "providedBy ?sch v"
    and x: "''x'' \<in> set (names ?sch)"
    and attr: "getitem ?sch ''x'' = FieldAttr (pure_validator (Int_validate (Int_field ''x'' req)))"
    and walk: "validate_fields rt ?sch v vs = (Inr d, vs')"
    and noti: "\<not> is_Interface ?sch" and fresh: "py_id rt v \<notin> vs"
    and ierrs: "ierrs = (if validate_invariants self then validateInvariants ?sch v else [])"
    and bad: "(\<exists>msg. py_getattr rt v ''x'' = Inl (AttributeError msg))
        \<or> (\<exists>w. py_getattr rt v ''x'' = Inr w \<and> w \<noteq> PNone \<and> \<not> isinstance w T_int)"
  obtain s where loop: "validate_fields_loop rt ?sch v (names ?sch) []
                          (insert (py_id rt v) vs) = (Inr d, s)"
    using walk noti fresh
    by (auto simp add: validate_fields_def split: prod.splits if_splits)
  have dist: "distinct (map fst d)"
    using loop_distinct_names [OF _ loop] by simp
  have missing: "map_of d ''x'' = Some (Err (SchemaNotFullyImplemented msg) (Some ''x'') PNone)"
    if "py_getattr rt v ''x'' = Inl (AttributeError msg)" for msg
  proof -
    have "\<forall>s. fst (validate_attribute rt (getitem ?sch ''x'') v ''x'' s)
                = Inl (AttributeError msg)"
      using that attr by (simp add: validate_attribute_def)
    from loop_records_entry [OF x this _ loop] show ?thesis by simp
  qed
  have wrong: "map_of d ''x'' = Some (Err (WrongType w (Some T_int) ''x'') (Some ''x'') w)"
    if "py_getattr rt v ''x'' = Inr w" for w
  proof -
    from that bad have w: "w \<noteq> PNone" "\<not> isinstance w T_int" by auto
    have "\<forall>s. fst (validate_attribute rt (getitem ?sch ''x'') v ''x'' s)
                = Inl (ValidationError (Err (WrongType w (Some T_int) ''x'') (Some ''x'') w))"
      using that attr Int_validate_wrong_type [OF w, of "''x''" req]
      by (simp add: validate_attribute_def pure_validator_def)
    from loop_records_entry [OF x this _ loop] show ?thesis by simp
  qed
  have "d \<noteq> []"
    using bad missing wrong by fastforce
  then have "Object__validate super__validate rt self v vs
       = (Inl (with_field_and_value
                 (SchemaNotCorrectlyImplemented (map snd d @ ierrs) (name self) d ierrs)
                 (name self) v), vs')"
    using sup prov walk ierrs by (simp add: Object__validate_def Let_def)
  with dist missing wrong
  show "Object__validate super__validate rt self v vs
       = (Inl (with_field_and_value
                 (SchemaNotCorrectlyImplemented (map snd d @ ierrs) (name self) d ierrs)
                 (name self) v), vs')
     \<and> distinct (map fst d)
     \<and> (\<forall>msg. py_getattr rt v ''x'' = Inl (AttributeError msg) \<longrightarrow>
           map_of d ''x'' = Some (Err (SchemaNotFullyImplemented msg) (Some ''x'') PNone))
     \<and> (\<forall>w. py_getattr rt v ''x'' = Inr w \<longrightarrow>
           map_of d ''x'' = Some (Err (WrongType w (Some T_int) ''x'') (Some ''x'') w))"
    by blast
qed

theorem Object_validate_attribute_errors_witness:
  "Object_validate (heap_runtime x_heap) (Object_field ''o'' IX True) (PObj 1) {}
     = (Inl (with_field_and_value
               (SchemaNotCorrectlyImplemented
                  [Err (SchemaNotFullyImplemented ''x'') (Some ''x'') PNone] ''o''
                  [(''x'', Err (SchemaNotFullyImplemented ''x'') (Some ''x'') PNone)] [])
               ''o'' (PObj 1)), {})
   \<and> Object_validate (heap_runtime x_heap) (Object_field ''o'' IX True) (PObj 2) {}
     = (Inl (with_field_and_value
               (SchemaNotCorrectlyImplemented
                  [Err (WrongType (PText (u ''not an int'')) (Some T_int) ''x'') (Some ''x'')
                     (PText (u ''not an int''))] ''o''
                  [(''x'', Err (WrongType (PText (u ''not an int'')) (Some T_int) ''x'')
                             (Some ''x'') (PText (u ''not an int'')))] [])
               ''o'' (PObj 2)), {})
   \<and> Object_validate (heap_runtime x_heap) (Object_field ''o'' IX True) (PObj 3) {}
     = (Inr (), {})"
proof -
  let ?rt = "heap_runtime x_heap"
  let ?self = "Object_field ''o'' IX True"
  let ?missing = "Err (SchemaNotFullyImplemented ''x'') (Some ''x'') PNone"
  let ?wrong = "Err (WrongType (PText (u ''not an int'')) (Some T_int) ''x'') (Some ''x'')
                  (PText (u ''not an int''))"
  have sch: "schema ?self = IX" "name ?self = ''o''" "validate_invariants ?self"
    by (simp_all add: Object_field_def)
  have sup: "Field__validate ?self v = Inr ()" for v
    by (simp add: Field__validate_def Object_field_def)
  have ix: "providedBy IX v" "''x'' \<in> set (names IX)" "\<not> is_Interface IX"
    "getitem IX ''x'' = FieldAttr (pure_validator (Int_validate (Int_field ''x'' True)))"
    "validateInvariants IX v = []" for v
    by (simp_all add: IX_def)
  have fresh: "py_id ?rt v \<notin> {}" for v by simp
  have get: "py_getattr ?rt (PObj 1) ''x'' = Inl (AttributeError ''x'')"
    "py_getattr ?rt (PObj 2) ''x'' = Inr (PText (u ''not an int''))"
    by (simp_all add: heap_runtime_def x_heap_def)
  have str: "PText (u ''not an int'') \<noteq> PNone" "\<not> isinstance (PText (u ''not an int'')) T_int"
    by simp_all
  have walk1: "validate_fields ?rt IX (PObj 1) {} = (Inr [(''x'', ?missing)], {})"
    by (simp add: validate_fields_def validate_attribute_def IX_def heap_runtime_def
        x_heap_def)
  have walk2: "validate_fields ?rt IX (PObj 2) {} = (Inr [(''x'', ?wrong)], {})"
    by (simp add: validate_fields_def validate_attribute_def IX_def heap_runtime_def
        x_heap_def pure_validator_def Int_validate_def Field_validate_def
        Orderable__validate_def Field__validate_def Int_field_def with_field_and_value_def
        u_def)
  have "Object__validate (Field__validate ?self) ?rt ?self (PObj 1) {}
     = (Inl (with_field_and_value
               (SchemaNotCorrectlyImplemented [?missing] ''o'' [(''x'', ?missing)] [])
               ''o'' (PObj 1)), {})"
    using Object_validate_attribute_errors
      [where super__validate = "Field__validate ?self" and v = "PObj 1" and self = ?self
         and req = True and rt = ?rt and vs = "{}" and d = "[(''x'', ?missing)]"
         and vs' = "{}" and ierrs = "[]"]
      sch sup ix fresh get walk1
    by simp
  moreover have "Object__validate (Field__validate ?self) ?rt ?self (PObj 2) {}
     = (Inl (with_field_and_value
               (SchemaNotCorrectlyImplemented [?wrong] ''o'' [(''x'', ?wrong)] [])
               ''o'' (PObj 2)), {})"
    using Object_validate_attribute_errors
      [where super__validate = "Field__validate ?self" and v = "PObj 2" and self = ?self
         and req = True and rt = ?rt and vs = "{}" and d = "[(''x'', ?wrong)]"
         and vs' = "{}" and ierrs = "[]"]
      sch sup ix fresh get str walk2
    by simp
  moreover have "Object_validate ?rt ?self (PObj 3) {} = (Inr (), {})"
    by (simp add: Object_validate_def Field_validate_in_def Object__validate_def
        Field__validate_def Object_field_def validate_fields_def validate_attribute_def
        IX_def heap_runtime_def x_heap_def pure_validator_def Int_validate_def
        Field_validate_def Orderable__validate_def Int_field_def)
  ultimately show ?thesis
    by (simp add: Object_validate_def Field_validate_in_def Object_field_def)
qed

end
